theory Spec2Isabelle
  imports Complex_Main "HOL-Library.Char_ord" "HOL-Library.List_Lexorder" "HOL-Library.Log_Nat"
begin

section \<open>Python values used by the two prediction pipelines\<close>

text \<open>
  The repository holds two pipelines: the FastAPI module \<^verbatim>\<open>API/main.py\<close> (module-level
  globals, endpoint \<^verbatim>\<open>predict_graduation_rate\<close>) and the class
  \<^verbatim>\<open>STEMPredictionService\<close> of \<^verbatim>\<open>API/prediction.py\<close>. Both are embedded below.

  Request numbers arrive as JSON numbers and are modelled as \<^typ>\<open>int\<close> and \<^typ>\<open>real\<close>.
  The value returned by the regressor is whatever the unpickled object computes, so it is
  modelled as a float that may also be infinite or NaN, with Python's comparison on it.
  Arithmetic on floats is done in double precision: every result is rounded to the nearest
  double by \<open>float64\<close> below.
\<close>

datatype pyfloat = Fin real | PInf | NInf | NaN

text \<open>Python's \<^verbatim>\<open>a < b\<close> on floats: every comparison with NaN is false.\<close>

fun flt :: "pyfloat \<Rightarrow> pyfloat \<Rightarrow> bool" where
  "flt (Fin a) (Fin b) = (a < b)"
| "flt (Fin a) PInf = True"
| "flt NInf (Fin b) = True"
| "flt NInf PInf = True"
| "flt _ _ = False"

text \<open>
  The builtins \<^verbatim>\<open>min(a, b)\<close> and \<^verbatim>\<open>max(a, b)\<close> keep their first argument unless the
  second one compares strictly smaller (greater).
\<close>

definition py_min :: "pyfloat \<Rightarrow> pyfloat \<Rightarrow> pyfloat" where
  "py_min a b = (if flt b a then b else a)"

definition py_max :: "pyfloat \<Rightarrow> pyfloat \<Rightarrow> pyfloat" where
  "py_max a b = (if flt a b then b else a)"

text \<open>Rounding to the nearest integer, ties to the even neighbour.\<close>

definition rint :: "real \<Rightarrow> int" where
  "rint x =
     (let f = \<lfloor>x\<rfloor>; d = x - of_int f
      in if d < 1 / 2 then f else if 1 / 2 < d then f + 1 else if even f then f else f + 1)"

text \<open>
  The nearest double of a real number, ties to the even significand: with
  \<open>2 ^ e \<le> \<bar>x\<bar> < 2 ^ (e + 1)\<close> the doubles around \<open>x\<close> are the multiples of \<open>2 ^ (e - 52)\<close>.
  The exponent is not bounded here; the numbers of the pipelines (requests within their
  ranges, the scaler's constants, rates between 0 and 100) are far from overflow, and a
  product below the smallest normal double is rounded to the integer 0 by \<open>rint\<close> either way.
\<close>

definition exponent :: "real \<Rightarrow> int" where
  "exponent x = (if 1 \<le> x then bitlen \<lfloor>x\<rfloor> - 1 else - bitlen (\<lceil>1 / x\<rceil> - 1))"

definition float64 :: "real \<Rightarrow> real" where
  "float64 x =
     (if x = 0 then 0
      else let q = 2 powi (exponent \<bar>x\<bar> - 52)
           in sgn x * (of_int (rint (\<bar>x\<bar> / q)) * q))"

text \<open>
  \<^verbatim>\<open>round(prediction, 2)\<close> on the \<^verbatim>\<open>numpy.float64\<close> that \<^verbatim>\<open>model.predict(...)[0]\<close> is: the
  value is multiplied by 100, rounded to the nearest integer and divided by 100, all in
  double precision. (On the literals \<^verbatim>\<open>0.0\<close> and \<^verbatim>\<open>100.0\<close>, which are Python floats, the
  builtin's exact rounding gives the same.) Infinities and NaN are returned unchanged.
\<close>

fun round2 :: "pyfloat \<Rightarrow> pyfloat" where
  "round2 (Fin x) = Fin (float64 (of_int (rint (float64 (x * 100))) / 100))"
| "round2 v = v"

text \<open>
  The texts of the messages built by \<^verbatim>\<open>STEMPredictionService.validate_input\<close>. The two
  f-strings \<^verbatim>\<open>f"Country '{country}' not supported. Available: {self.countries}"\<close> and
  \<^verbatim>\<open>f"STEM field '{stem_field}' not supported. Available: {self.stem_fields}"\<close> are kept
  as the value and the list they interpolate; \<open>NoMessage\<close> is the empty string.
\<close>

datatype message =
    NoMessage
  | YearMessage
  | EnrollmentMessage
  | GenderGapMessage
  | CountryMessage string "string list"
  | StemFieldMessage string "string list"

text \<open>
  Exceptions. \<open>AttributeError\<close> is raised by a method call on \<^verbatim>\<open>None\<close>,
  \<open>UnseenLabel\<close> is the \<^verbatim>\<open>ValueError\<close> of \<^verbatim>\<open>LabelEncoder.transform\<close>,
  \<open>ValueError\<close> the one raised by \<^verbatim>\<open>STEMPredictionService.predict\<close>, and
  \<open>ObjectError\<close> stands for any exception raised inside the unpickled model object or by
  \<^verbatim>\<open>joblib.load\<close>.
\<close>

datatype py_error =
    AttributeError
  | UnseenLabel string
  | FileNotFoundError
  | ValueError message
  | ObjectError

text \<open>
  The object stored in \<^verbatim>\<open>model/best_model.pkl\<close>: its truth test (\<^verbatim>\<open>bool(model)\<close>, which an
  arbitrary object may define through \<^verbatim>\<open>__bool__\<close> or \<^verbatim>\<open>__len__\<close>) and its method
  \<^verbatim>\<open>predict\<close> on one row of five features, if it has one: looking up \<^verbatim>\<open>model.predict\<close> on
  an object without it raises \<^verbatim>\<open>AttributeError\<close> and nothing is called.
\<close>

record py_model =
  truth_test :: "py_error + bool"
  predict_fn :: "(real list \<Rightarrow> py_error + pyfloat) option"

text \<open>What is at \<^verbatim>\<open>model_path\<close>: nothing, or a file with the outcome of \<^verbatim>\<open>joblib.load\<close>.\<close>

datatype model_file = Absent | Present "py_error + py_model"

section \<open>The scikit-learn objects\<close>

text \<open>
  \<^verbatim>\<open>LabelEncoder.fit\<close> stores the sorted distinct labels in \<^verbatim>\<open>classes_\<close>;
  \<^verbatim>\<open>transform\<close> raises on a label that is not among them and otherwise returns the
  position found by \<^verbatim>\<open>searchsorted\<close> (leftmost insertion point in the sorted array).
  Strings are compared character by character in code-point order.
\<close>

datatype LabelEncoder = LabelEncoder (classes: "string list")

definition LabelEncoder_fit :: "string list \<Rightarrow> LabelEncoder" where
  "LabelEncoder_fit y = LabelEncoder (sort (remdups y))"

definition searchsorted :: "string list \<Rightarrow> string \<Rightarrow> nat" where
  "searchsorted a v = length (takeWhile (\<lambda>c. c < v) a)"

definition LabelEncoder_transform :: "LabelEncoder \<Rightarrow> string \<Rightarrow> py_error + nat" where
  "LabelEncoder_transform enc v =
     (if v \<in> set (classes enc) then Inr (searchsorted (classes enc) v)
      else Inl (UnseenLabel v))"

text \<open>
  \<^verbatim>\<open>StandardScaler.transform\<close> on one row: subtract \<^verbatim>\<open>mean_\<close>, then divide by \<^verbatim>\<open>scale_\<close>,
  element by element in double precision.
\<close>

record StandardScaler =
  scaler_mean :: "real list"
  scaler_scale :: "real list"

definition StandardScaler_transform :: "StandardScaler \<Rightarrow> real list \<Rightarrow> real list" where
  "StandardScaler_transform sc features =
     map (\<lambda>(x, m, s). float64 (float64 (x - m) / s))
       (zip features (zip (scaler_mean sc) (scaler_scale sc)))"

text \<open>
  The calls made on the encoders, the scaler and the model while one request is served,
  in order. A method call on \<^verbatim>\<open>None\<close> raises before anything is called.
\<close>

datatype call = EncoderTransform string | ScalerTransform | ModelPredict

section \<open>\<^verbatim>\<open>API/main.py\<close>\<close>

definition COUNTRIES :: "string list" where
  "COUNTRIES =
     [''Australia'', ''Brazil'', ''Canada'', ''China'', ''France'', ''Germany'', ''India'',
      ''Japan'', ''South Korea'', ''United Kingdom'', ''United States'']"

definition STEM_FIELDS :: "string list" where
  "STEM_FIELDS = [''Biology'', ''Computer Science'', ''Engineering'', ''Mathematics'']"

text \<open>The module-level globals \<^verbatim>\<open>model\<close>, \<^verbatim>\<open>scaler\<close>, \<^verbatim>\<open>country_encoder\<close>, \<^verbatim>\<open>field_encoder\<close>.\<close>

record app_state =
  model :: "py_model option"
  scaler :: "StandardScaler option"
  country_encoder :: "LabelEncoder option"
  field_encoder :: "LabelEncoder option"

definition initial_state :: app_state where
  "initial_state =
     \<lparr>model = None, scaler = None, country_encoder = None, field_encoder = None\<rparr>"

text \<open>
  \<^verbatim>\<open>load_model_and_encoders\<close>. The second argument is the \<^verbatim>\<open>SGDRegressor\<close> that the
  \<^verbatim>\<open>else\<close> branch fits on \<^verbatim>\<open>np.random.rand\<close> data: its coefficients depend on the random
  draw, so it is a parameter. An exception of \<^verbatim>\<open>joblib.load\<close> is logged and re-raised.
  The statistics of the scaler are the doubles of the literals in \<^verbatim>\<open>np.array([...])\<close>.
\<close>

definition load_model_and_encoders :: "model_file \<Rightarrow> py_model \<Rightarrow> py_error + app_state" where
  "load_model_and_encoders file fallback =
     (case (case file of Present loaded \<Rightarrow> loaded | Absent \<Rightarrow> Inr fallback) of
        Inl e \<Rightarrow> Inl e
      | Inr m \<Rightarrow>
          Inr \<lparr>model = Some m,
               scaler = Some \<lparr>scaler_mean = map float64 [2018, 50, 0.7, 5, 1.5],
                              scaler_scale = map float64 [5, 15, 0.15, 3, 1.2]\<rparr>,
               country_encoder = Some (LabelEncoder_fit COUNTRIES),
               field_encoder = Some (LabelEncoder_fit STEM_FIELDS)\<rparr>)"

text \<open>
  \<^verbatim>\<open>health_check\<close>. The only expression of the \<^verbatim>\<open>try\<close> block that can raise is the truth
  test in \<^verbatim>\<open>type(model).__name__ if model else "Not loaded"\<close>; the handler then returns the
  status \<^verbatim>\<open>unhealthy\<close>. Timestamps and the constant entries of the dictionary are left out.
\<close>

datatype health_status =
    HealthReport (status: string) (model_loaded: bool) (country_encoder_ready: bool)
      (field_encoder_ready: bool) (scaler_ready: bool) (ready_for_predictions: bool)
      (warning: "string option")
  | HealthFailure (status: string) (error: py_error)

definition health_check :: "app_state \<Rightarrow> health_status" where
  "health_check st =
     (case (case model st of None \<Rightarrow> Inr False | Some m \<Rightarrow> truth_test m) of
        Inl e \<Rightarrow> HealthFailure ''unhealthy'' e
      | Inr _ \<Rightarrow>
          (let ready = (model st \<noteq> None \<and> country_encoder st \<noteq> None
                        \<and> field_encoder st \<noteq> None \<and> scaler st \<noteq> None)
           in HealthReport (if \<not> ready then ''degraded'' else ''healthy'')
                (model st \<noteq> None) (country_encoder st \<noteq> None)
                (field_encoder st \<noteq> None) (scaler st \<noteq> None) ready
                (if \<not> ready then Some ''Some components not fully loaded'' else None)))"

text \<open>The request body, and the errors pydantic collects while validating it.\<close>

record PredictionInput =
  year :: int
  female_enrollment_percent :: real
  gender_gap_index :: real
  country :: string
  stem_field :: string

datatype field_error =
    NotGe string
  | NotLe string
  | CountryNotSupported string "string list"
  | StemFieldNotSupported string "string list"

definition validate_country :: "string \<Rightarrow> field_error + string" where
  "validate_country v =
     (let supported_countries =
        [''Australia'', ''Brazil'', ''Canada'', ''China'', ''France'', ''Germany'', ''India'',
         ''Japan'', ''South Korea'', ''United Kingdom'', ''United States'']
      in if v \<notin> set supported_countries then Inl (CountryNotSupported v supported_countries)
         else Inr v)"

definition validate_stem_field :: "string \<Rightarrow> field_error + string" where
  "validate_stem_field v =
     (let supported_fields = [''Biology'', ''Computer Science'', ''Engineering'', ''Mathematics'']
      in if v \<notin> set supported_fields then Inl (StemFieldNotSupported v supported_fields)
         else Inr v)"

text \<open>
  Validation of the \<^verbatim>\<open>PredictionInput\<close> model: each field is checked against its
  \<^verbatim>\<open>Field(ge=..., le=...)\<close> bounds or its \<^verbatim>\<open>@validator\<close>, in declaration order, and the
  errors of all fields are collected.
\<close>

definition bounds_errors :: "string \<Rightarrow> 'a::linorder \<Rightarrow> 'a \<Rightarrow> 'a \<Rightarrow> field_error list" where
  "bounds_errors name ge le v =
     (if v < ge then [NotGe name] else if le < v then [NotLe name] else [])"

definition validator_errors :: "field_error + string \<Rightarrow> field_error list" where
  "validator_errors r = (case r of Inl e \<Rightarrow> [e] | Inr _ \<Rightarrow> [])"

definition PredictionInput_validate :: "PredictionInput \<Rightarrow> field_error list + PredictionInput" where
  "PredictionInput_validate body =
     (let errors =
            bounds_errors ''year'' 2000 2030 (year body)
          @ bounds_errors ''female_enrollment_percent'' 0 100 (female_enrollment_percent body)
          @ bounds_errors ''gender_gap_index'' 0 1 (gender_gap_index body)
          @ validator_errors (validate_country (country body))
          @ validator_errors (validate_stem_field (stem_field body))
      in if errors = [] then Inr body else Inl errors)"

text \<open>The responses of the \<^verbatim>\<open>/predict\<close> endpoint.\<close>

datatype http_error =
    Http422 "field_error list"
  | Http400_InvalidCountry string "string list"
  | Http400_InvalidField string "string list"
  | Http500 py_error

record PredictionOutput =
  predicted_graduation_rate :: pyfloat
  model_used :: string
  country_encoded :: nat
  stem_field_encoded :: nat
  country_name :: string
  stem_field_name :: string
  model_confidence :: string
  country_rank :: nat
  field_rank :: nat

text \<open>
  The body of \<^verbatim>\<open>predict_graduation_rate\<close>. Every exception other than the two
  \<^verbatim>\<open>HTTPException\<close>s of the membership checks is turned into a 500 response by the
  \<^verbatim>\<open>except Exception\<close> handler. The locals \<^verbatim>\<open>country_encoded\<close> and
  \<^verbatim>\<open>field_encoded\<close> are \<open>country_enc\<close> and \<open>field_enc\<close> here, the former being the
  name of an output field. \<^verbatim>\<open>np.array([[...]])\<close> makes doubles of the five features. The
  echoed numeric inputs and the timestamp of the response are left out of the output
  record.
\<close>

definition predict_graduation_rate ::
  "app_state \<Rightarrow> PredictionInput \<Rightarrow> call list \<times> (http_error + PredictionOutput)" where
  "predict_graduation_rate st input_data =
     (if country input_data \<notin> set COUNTRIES then
        ([], Inl (Http400_InvalidCountry (country input_data) COUNTRIES))
      else if stem_field input_data \<notin> set STEM_FIELDS then
        ([], Inl (Http400_InvalidField (stem_field input_data) STEM_FIELDS))
      else
        (case country_encoder st of
           None \<Rightarrow> ([], Inl (Http500 AttributeError))
         | Some ce \<Rightarrow>
        (let t1 = [EncoderTransform (country input_data)] in
         case LabelEncoder_transform ce (country input_data) of
           Inl e \<Rightarrow> (t1, Inl (Http500 e))
         | Inr country_enc \<Rightarrow>
        (case field_encoder st of
           None \<Rightarrow> (t1, Inl (Http500 AttributeError))
         | Some fe \<Rightarrow>
        (let t2 = t1 @ [EncoderTransform (stem_field input_data)] in
         case LabelEncoder_transform fe (stem_field input_data) of
           Inl e \<Rightarrow> (t2, Inl (Http500 e))
         | Inr field_enc \<Rightarrow>
        (let features =
               map float64
                 [of_int (year input_data), female_enrollment_percent input_data,
                  gender_gap_index input_data, of_nat country_enc, of_nat field_enc] in
         case scaler st of
           None \<Rightarrow> (t2, Inl (Http500 AttributeError))
         | Some sc \<Rightarrow>
        (let t3 = t2 @ [ScalerTransform];
             features_scaled = StandardScaler_transform sc features in
         case model st of
           None \<Rightarrow> (t3, Inl (Http500 AttributeError))
         | Some m \<Rightarrow>
        (case predict_fn m of
           None \<Rightarrow> (t3, Inl (Http500 AttributeError))
         | Some predict_method \<Rightarrow>
        (let t4 = t3 @ [ModelPredict] in
         case predict_method features_scaled of
           Inl e \<Rightarrow> (t4, Inl (Http500 e))
         | Inr raw \<Rightarrow>
        (let prediction = py_max (Fin 0) (py_min (Fin 100) raw);
             confidence_score = ''high'';
             confidence_score = (if year input_data > 2025 then ''medium'' else confidence_score);
             confidence_score =
               (if gender_gap_index input_data < 0.5 then ''medium'' else confidence_score)
         in (t4, Inr \<lparr>predicted_graduation_rate = round2 prediction,
                      model_used = ''SGD Regressor'',
                      country_encoded = country_enc,
                      stem_field_encoded = field_enc,
                      country_name = country input_data,
                      stem_field_name = stem_field input_data,
                      model_confidence = confidence_score,
                      country_rank = country_enc + 1,
                      field_rank = field_enc + 1\<rparr>)))))))))))"

text \<open>
  The \<^verbatim>\<open>POST /predict\<close> route: FastAPI validates the body as a \<^verbatim>\<open>PredictionInput\<close> and
  answers 422 without calling the handler when validation fails.
\<close>

definition post_predict ::
  "app_state \<Rightarrow> PredictionInput \<Rightarrow> call list \<times> (http_error + PredictionOutput)" where
  "post_predict st body =
     (case PredictionInput_validate body of
        Inl errors \<Rightarrow> ([], Inl (Http422 errors))
      | Inr input_data \<Rightarrow> predict_graduation_rate st input_data)"

section \<open>\<^verbatim>\<open>API/prediction.py\<close>\<close>

text \<open>
  The attributes of a \<^verbatim>\<open>STEMPredictionService\<close> object. \<^verbatim>\<open>model_path\<close> is represented
  by what is found there, and \<^verbatim>\<open>feature_names\<close> is left out.
\<close>

record STEMPredictionService =
  self_model :: "py_model option"
  self_scaler :: "StandardScaler option"
  self_country_encoder :: "LabelEncoder option"
  self_field_encoder :: "LabelEncoder option"
  self_countries :: "string list"
  self_stem_fields :: "string list"

text \<open>\<^verbatim>\<open>_load_model\<close>: a missing file raises \<^verbatim>\<open>FileNotFoundError\<close>; every exception is re-raised.\<close>

definition load_model :: "STEMPredictionService \<Rightarrow> model_file \<Rightarrow> py_error + STEMPredictionService" where
  "load_model self file =
     (case file of
        Present loaded \<Rightarrow>
          (case loaded of Inl e \<Rightarrow> Inl e | Inr m \<Rightarrow> Inr (self\<lparr>self_model := Some m\<rparr>))
      | Absent \<Rightarrow> Inl FileNotFoundError)"

text \<open>\<^verbatim>\<open>_initialize_encoders\<close>.\<close>

definition initialize_encoders :: "STEMPredictionService \<Rightarrow> STEMPredictionService" where
  "initialize_encoders self =
     self\<lparr>self_country_encoder := Some (LabelEncoder_fit (self_countries self)),
          self_field_encoder := Some (LabelEncoder_fit (self_stem_fields self)),
          self_scaler := Some \<lparr>scaler_mean = map float64 [2018, 50, 0.7, 5, 1.5],
                                scaler_scale = map float64 [5, 15, 0.15, 3, 1.2]\<rparr>\<rparr>"

text \<open>\<^verbatim>\<open>__init__\<close>; the module creates one instance when it is imported.\<close>

definition STEMPredictionService_init :: "model_file \<Rightarrow> py_error + STEMPredictionService" where
  "STEMPredictionService_init file =
     (let self = \<lparr>self_model = None, self_scaler = None,
                   self_country_encoder = None, self_field_encoder = None,
                   self_countries =
                     [''Australia'', ''Canada'', ''China'', ''Germany'', ''India'', ''USA''],
                   self_stem_fields =
                     [''Biology'', ''Computer Science'', ''Engineering'', ''Mathematics'']\<rparr>
      in case load_model self file of
           Inl e \<Rightarrow> Inl e
         | Inr self \<Rightarrow> Inr (initialize_encoders self))"

text \<open>
  \<^verbatim>\<open>validate_input\<close>. The parameters \<^verbatim>\<open>year\<close>, \<^verbatim>\<open>gender_gap_index\<close>, \<^verbatim>\<open>country\<close> and
  \<^verbatim>\<open>stem_field\<close> are written \<open>yr\<close>, \<open>gap_index\<close>, \<open>cntry\<close> and \<open>field\<close> in this section,
  their names being those of the request's fields above.
\<close>

definition validate_input ::
  "STEMPredictionService \<Rightarrow> int \<Rightarrow> real \<Rightarrow> real \<Rightarrow> string \<Rightarrow> string \<Rightarrow> bool \<times> message" where
  "validate_input self yr female_enrollment gap_index cntry field =
     (if \<not> (2000 \<le> yr \<and> yr \<le> 2030) then (False, YearMessage)
      else if \<not> (0 \<le> female_enrollment \<and> female_enrollment \<le> 100) then
        (False, EnrollmentMessage)
      else if \<not> (0 \<le> gap_index \<and> gap_index \<le> 1) then (False, GenderGapMessage)
      else if cntry \<notin> set (self_countries self) then
        (False, CountryMessage cntry (self_countries self))
      else if field \<notin> set (self_stem_fields self) then
        (False, StemFieldMessage field (self_stem_fields self))
      else (True, NoMessage))"

text \<open>
  \<^verbatim>\<open>preprocess_input\<close> returns the scaled features and the two codes; an exception leaves
  it at once.
\<close>

definition preprocess_input ::
  "STEMPredictionService \<Rightarrow> int \<Rightarrow> real \<Rightarrow> real \<Rightarrow> string \<Rightarrow> string
     \<Rightarrow> call list \<times> (py_error + real list \<times> nat \<times> nat)" where
  "preprocess_input self yr female_enrollment gap_index cntry field =
     (case self_country_encoder self of
        None \<Rightarrow> ([], Inl AttributeError)
      | Some ce \<Rightarrow>
     (let t1 = [EncoderTransform cntry] in
      case LabelEncoder_transform ce cntry of
        Inl e \<Rightarrow> (t1, Inl e)
      | Inr country_enc \<Rightarrow>
     (case self_field_encoder self of
        None \<Rightarrow> (t1, Inl AttributeError)
      | Some fe \<Rightarrow>
     (let t2 = t1 @ [EncoderTransform field] in
      case LabelEncoder_transform fe field of
        Inl e \<Rightarrow> (t2, Inl e)
      | Inr field_enc \<Rightarrow>
     (let features =
            map float64
              [of_int yr, female_enrollment, gap_index, of_nat country_enc, of_nat field_enc] in
      case self_scaler self of
        None \<Rightarrow> (t2, Inl AttributeError)
      | Some sc \<Rightarrow>
          (t2 @ [ScalerTransform],
           Inr (StandardScaler_transform sc features, country_enc, field_enc)))))))"

record prediction_result =
  result_predicted_graduation_rate :: pyfloat
  result_model_used :: string
  result_country :: string
  result_stem_field :: string
  result_country_encoded :: nat
  result_stem_field_encoded :: nat

text \<open>\<^verbatim>\<open>STEMPredictionService.predict\<close>.\<close>

definition predict ::
  "STEMPredictionService \<Rightarrow> int \<Rightarrow> real \<Rightarrow> real \<Rightarrow> string \<Rightarrow> string
     \<Rightarrow> call list \<times> (py_error + prediction_result)" where
  "predict self yr female_enrollment gap_index cntry field =
     (let (is_valid, error_msg) = validate_input self yr female_enrollment gap_index cntry field
      in if \<not> is_valid then ([], Inl (ValueError error_msg))
         else
           (case preprocess_input self yr female_enrollment gap_index cntry field of
              (t3, Inl e) \<Rightarrow> (t3, Inl e)
            | (t3, Inr (features_scaled, country_enc, field_enc)) \<Rightarrow>
           (case self_model self of
              None \<Rightarrow> (t3, Inl AttributeError)
            | Some m \<Rightarrow>
           (case predict_fn m of
              None \<Rightarrow> (t3, Inl AttributeError)
            | Some predict_method \<Rightarrow>
           (let t4 = t3 @ [ModelPredict] in
            case predict_method features_scaled of
              Inl e \<Rightarrow> (t4, Inl e)
            | Inr raw \<Rightarrow>
           (let prediction = py_max (Fin 0) (py_min (Fin 100) raw)
            in (t4, Inr \<lparr>result_predicted_graduation_rate = round2 prediction,
                         result_model_used = ''SGD Regressor'',
                         result_country = cntry,
                         result_stem_field = field,
                         result_country_encoded = country_enc,
                         result_stem_field_encoded = field_enc\<rparr>)))))))"

section \<open>The validation order and the clamp in words\<close>

text \<open>
  The five constraints of a request in the order year, female enrolment percentage,
  gender gap index, country, STEM field, each with the message reported for it; the
  violated ones are listed in that order.
\<close>

definition violated_constraints ::
  "STEMPredictionService \<Rightarrow> int \<Rightarrow> real \<Rightarrow> real \<Rightarrow> string \<Rightarrow> string \<Rightarrow> message list" where
  "violated_constraints self yr female_enrollment gap_index cntry field =
     map snd (filter (\<lambda>(holds, msg). \<not> holds)
       [(2000 \<le> yr \<and> yr \<le> 2030, YearMessage),
        (0 \<le> female_enrollment \<and> female_enrollment \<le> 100, EnrollmentMessage),
        (0 \<le> gap_index \<and> gap_index \<le> 1, GenderGapMessage),
        (cntry \<in> set (self_countries self), CountryMessage cntry (self_countries self)),
        (field \<in> set (self_stem_fields self), StemFieldMessage field (self_stem_fields self))])"

text \<open>
  Clamping in words: a number outside the closed range from 0 to 100 is capped at the
  nearest boundary, so are the infinities; NaN has no nearest boundary and is taken to 100.
\<close>

definition clamp_0_100 :: "pyfloat \<Rightarrow> real" where
  "clamp_0_100 raw =
     (case raw of Fin r \<Rightarrow> max 0 (min 100 r) | PInf \<Rightarrow> 100 | NInf \<Rightarrow> 0 | NaN \<Rightarrow> 100)"

section \<open>Concrete requests and model objects\<close>

text \<open>The example request of \<^verbatim>\<open>PredictionInput.Config.schema_extra\<close>.\<close>

definition example_request :: PredictionInput where
  "example_request =
     \<lparr>year = 2024, female_enrollment_percent = 45.5, gender_gap_index = 0.75,
      country = ''United States'', stem_field = ''Computer Science''\<rparr>"

text \<open>A regressor that answers every row with the same value; as an object it is true.\<close>

definition constant_model :: "pyfloat \<Rightarrow> py_model" where
  "constant_model raw = \<lparr>truth_test = Inr True, predict_fn = Some (\<lambda>features. Inr raw)\<rparr>"

text \<open>
  An unpickled object that is not an estimator, such as an array of coefficients: its
  truth test raises and it has no \<^verbatim>\<open>predict\<close>.
\<close>

definition array_model :: py_model where
  "array_model = \<lparr>truth_test = Inl ObjectError, predict_fn = None\<rparr>"

text \<open>
  The globals after the startup event: when \<^verbatim>\<open>load_model_and_encoders\<close> raises, nothing has
  been assigned and they are still \<^verbatim>\<open>None\<close>.
\<close>

definition globals_after_startup :: "model_file \<Rightarrow> py_model \<Rightarrow> app_state" where
  "globals_after_startup file fallback =
     (case load_model_and_encoders file fallback of Inl e \<Rightarrow> initial_state | Inr st \<Rightarrow> st)"

text \<open>The service object built from a model file that holds a constant regressor.\<close>

definition example_service :: STEMPredictionService where
  "example_service = projr (STEMPredictionService_init (Present (Inr (constant_model (Fin 50)))))"

section \<open>Clamping and rounding\<close>

lemma clamp_eq: "py_max (Fin 0) (py_min (Fin 100) raw) = Fin (clamp_0_100 raw)"
  by (cases raw) (auto simp: py_max_def py_min_def clamp_0_100_def)

lemma clamp_0_100_range: "0 \<le> clamp_0_100 raw" "clamp_0_100 raw \<le> 100"
  by (cases raw; simp add: clamp_0_100_def)+

lemma rint_of_int [simp]: "rint (of_int n) = n"
  by (simp add: rint_def)

lemma rint_nonneg: "0 \<le> x \<Longrightarrow> 0 \<le> rint x"
  by (auto simp: rint_def Let_def)

lemma rint_le:
  assumes "x \<le> of_int n"
  shows "rint x \<le> n"
proof (cases "x = of_int n")
  case True
  then show ?thesis by simp
next
  case False
  with assms have "x < of_int n" by simp
  then have "\<lfloor>x\<rfloor> < n" by (simp add: floor_less_iff)
  then show ?thesis by (auto simp: rint_def Let_def)
qed

lemma bitlen_le:
  assumes "m < 2 ^ k"
  shows "bitlen m \<le> int k"
proof (cases "0 < m")
  case True
  from bitlen_bounds [OF True] assms have "(2::int) ^ nat (bitlen m - 1) < 2 ^ k" by linarith
  then have "nat (bitlen m - 1) < k" by (simp add: power_strict_increasing_iff)
  then show ?thesis by linarith
next
  case False
  then have "bitlen m = 0" by (simp add: bitlen_eq_zero_iff)
  then show ?thesis by simp
qed

lemma exponent_le:
  assumes "0 < x" "x < 2 ^ k"
  shows "exponent x < int k"
proof (cases "1 \<le> x")
  case True
  have "\<lfloor>x\<rfloor> < 2 ^ k"
  proof -
    have "of_int \<lfloor>x\<rfloor> \<le> x" by simp
    also have "x < 2 ^ k" by fact
    finally have "(of_int \<lfloor>x\<rfloor> :: real) < of_int (2 ^ k)" by simp
    then show ?thesis by (simp only: of_int_less_iff)
  qed
  then have "bitlen \<lfloor>x\<rfloor> \<le> int k" by (rule bitlen_le)
  with True show ?thesis by (simp add: exponent_def)
next
  case False
  from assms(1) False have "1 < 1 / x" by simp
  then have "1 < \<lceil>1 / x\<rceil>" by (simp add: less_ceiling_iff)
  then have "bitlen (\<lceil>1 / x\<rceil> - 1) \<noteq> 0" by (simp add: bitlen_eq_zero_iff)
  with bitlen_nonneg [of "\<lceil>1 / x\<rceil> - 1"] have "0 < bitlen (\<lceil>1 / x\<rceil> - 1)" by linarith
  with False show ?thesis by (simp add: exponent_def)
qed

lemma float64_nonneg: "0 \<le> x \<Longrightarrow> 0 \<le> float64 x"
  by (auto simp: float64_def Let_def sgn_if intro!: mult_nonneg_nonneg rint_nonneg)

text \<open>Rounding to a double does not cross an integer below \<open>2 ^ 53\<close>.\<close>

lemma float64_le_int:
  assumes "0 \<le> x" "x \<le> of_int n" "n < 2 ^ 53"
  shows "float64 x \<le> of_int n"
proof (cases "x = 0")
  case True
  with assms show ?thesis by (simp add: float64_def)
next
  case False
  with assms have pos: "0 < x" by simp
  define k where "k = nat (52 - exponent x)"
  have "x < 2 ^ 53"
  proof -
    have "(of_int n :: real) < of_int (2 ^ 53)" using assms(3) by (simp only: of_int_less_iff)
    with assms(2) show ?thesis by simp
  qed
  with pos have "exponent x < 53" using exponent_le [of x 53] by simp
  then have e: "exponent x - 52 = - int k" by (simp add: k_def)
  have q: "(2::real) powi (exponent x - 52) = 1 / 2 ^ k"
    unfolding e by (simp add: power_int_minus field_simps)
  have "x * 2 ^ k \<le> of_int n * 2 ^ k" using assms(2) by simp
  also have "\<dots> = of_int (n * 2 ^ k)" by simp
  finally have "rint (x * 2 ^ k) \<le> n * 2 ^ k" by (rule rint_le)
  then have "(of_int (rint (x * 2 ^ k)) :: real) \<le> of_int (n * 2 ^ k)"
    by (simp only: of_int_le_iff)
  then have "(of_int (rint (x * 2 ^ k)) :: real) / 2 ^ k \<le> of_int n"
    by (simp add: field_simps)
  then show ?thesis using pos by (simp add: float64_def Let_def q)
qed

text \<open>Integers below \<open>2 ^ 53\<close> are doubles.\<close>

lemma float64_of_int:
  assumes "\<bar>n\<bar> < 2 ^ 53"
  shows "float64 (of_int n) = of_int n"
proof (cases "n = 0")
  case True
  then show ?thesis by (simp add: float64_def)
next
  case False
  let ?a = "\<bar>of_int n :: real\<bar>"
  define k where "k = nat (52 - exponent ?a)"
  have "0 < ?a" using False by simp
  moreover have "?a < 2 ^ 53"
  proof -
    have "(of_int \<bar>n\<bar> :: real) < of_int (2 ^ 53)" using assms by (simp only: of_int_less_iff)
    then show ?thesis by simp
  qed
  ultimately have "exponent ?a < 53" using exponent_le [of ?a 53] by simp
  then have e: "exponent ?a - 52 = - int k" by (simp add: k_def)
  have q: "(2::real) powi (exponent ?a - 52) = 1 / 2 ^ k"
    unfolding e by (simp add: power_int_minus field_simps)
  have "?a / (1 / 2 ^ k) = of_int (\<bar>n\<bar> * 2 ^ k)" by simp
  then have r: "rint (?a / (1 / 2 ^ k)) = \<bar>n\<bar> * 2 ^ k" by (simp only: rint_of_int)
  have "float64 (of_int n) = sgn (of_int n) * (of_int (\<bar>n\<bar> * 2 ^ k) * (1 / 2 ^ k))"
    using False by (simp only: float64_def Let_def q r) simp
  also have "\<dots> = sgn (of_int n) * of_int \<bar>n\<bar>" by simp
  also have "\<dots> = of_int n" by (simp add: sgn_if)
  finally show ?thesis .
qed

text \<open>
  The rounded value of a number between 0 and 100 is the double of a whole number of
  hundredths, and lies between 0 and 100.
\<close>

lemma round2_hundredths:
  assumes "0 \<le> c" "c \<le> 100"
  shows "\<exists>n. 0 \<le> n \<and> n \<le> 10000 \<and> n = rint (float64 (c * 100))
           \<and> round2 (Fin c) = Fin (float64 (of_int n / 100))
           \<and> 0 \<le> float64 (of_int n / 100) \<and> float64 (of_int n / 100) \<le> 100"
proof -
  let ?n = "rint (float64 (c * 100))"
  have p: "0 \<le> float64 (c * 100)" using assms by (intro float64_nonneg) simp
  then have a: "0 \<le> ?n" by (rule rint_nonneg)
  have "c * 100 \<le> of_int 10000" using assms by simp
  with assms(1) have "float64 (c * 100) \<le> of_int 10000" by (intro float64_le_int) simp_all
  then have b: "?n \<le> 10000" by (rule rint_le)
  have d: "0 \<le> (of_int ?n :: real) / 100" using a by simp
  then have lo: "0 \<le> float64 (of_int ?n / 100)" by (rule float64_nonneg)
  have "(of_int ?n :: real) \<le> 10000" using b by linarith
  then have "(of_int ?n :: real) / 100 \<le> of_int 100" by simp
  with d have hi: "float64 (of_int ?n / 100) \<le> of_int 100" by (intro float64_le_int) simp_all
  from a b lo hi show ?thesis by simp
qed

lemma round2_of_int:
  assumes "0 \<le> n" "n \<le> 100"
  shows "round2 (Fin (of_int n)) = Fin (of_int n)"
proof -
  have "float64 (of_int n * 100) = float64 (of_int (n * 100))" by simp
  also have "\<dots> = of_int (n * 100)" using assms by (intro float64_of_int) simp
  finally have "rint (float64 (of_int n * 100)) = n * 100" by (simp only: rint_of_int)
  moreover have "float64 (of_int n) = of_int n" using assms by (intro float64_of_int) simp
  ultimately show ?thesis by simp
qed

text \<open>A tie at the third decimal after the multiplication in doubles goes to the even neighbour.\<close>

lemma round2_in_doubles:
  "float64 (float64 2.675 * 100) = 267.5"
  "round2 (Fin (float64 2.675)) = Fin (float64 2.68)"
  by (simp_all add: float64_def exponent_def rint_def compute_bitlen Let_def)

lemma rate_range:
  "\<exists>q. round2 (py_max (Fin 0) (py_min (Fin 100) raw)) = Fin q \<and> 0 \<le> q \<and> q \<le> 100"
  unfolding clamp_eq using round2_hundredths [OF clamp_0_100_range, of raw] by blast

section \<open>The label encoder\<close>

lemma classes_fit:
  "sorted (classes (LabelEncoder_fit y))" "distinct (classes (LabelEncoder_fit y))"
  "set (classes (LabelEncoder_fit y)) = set y"
  by (simp_all add: LabelEncoder_fit_def)

lemma searchsorted_filter:
  "sorted a \<Longrightarrow> searchsorted a v = length (filter (\<lambda>c. c < v) a)"
  unfolding searchsorted_def
proof (induction a)
  case Nil
  then show ?case by simp
next
  case (Cons x xs)
  show ?case
  proof (cases "x < v")
    case True
    with Cons show ?thesis by simp
  next
    case False
    with Cons.prems have "\<forall>c\<in>set xs. \<not> c < v" by auto
    then have "filter (\<lambda>c. c < v) xs = []" by (simp add: filter_empty_conv)
    with False show ?thesis by simp
  qed
qed

lemma searchsorted_nth:
  "sorted a \<Longrightarrow> v \<in> set a \<Longrightarrow> searchsorted a v < length a \<and> a ! searchsorted a v = v"
  unfolding searchsorted_def
  by (induction a) auto

lemma searchsorted_card:
  assumes "sorted a" "distinct a"
  shows "searchsorted a v = card {c \<in> set a. c < v}"
proof -
  have "distinct (filter (\<lambda>c. c < v) a)" using assms by simp
  then have "length (filter (\<lambda>c. c < v) a) = card (set (filter (\<lambda>c. c < v) a))"
    by (rule distinct_card [symmetric])
  then show ?thesis using assms by (simp add: searchsorted_filter)
qed

lemma fit_set_eq: "set y = set y' \<Longrightarrow> LabelEncoder_fit y = LabelEncoder_fit y'"
  using sorted_distinct_set_unique [of "sort (remdups y)" "sort (remdups y')"]
  by (simp add: LabelEncoder_fit_def)

lemma transform_fit_member:
  "v \<in> set y \<Longrightarrow>
   LabelEncoder_transform (LabelEncoder_fit y) v = Inr (searchsorted (classes (LabelEncoder_fit y)) v)"
  by (simp add: LabelEncoder_transform_def classes_fit)

section \<open>Claims about the categorical encoding\<close>

text \<open>
  C4. For every label of a category set, encoding it against the encoder fitted on that set
  returns the zero-based position of the label in the sorted distinct labels, which is the
  number of labels of the set that are alphabetically smaller. The code is the same for
  every list with the same labels, whatever their order (and encoding is a function, so
  the same label always yields the same code).
\<close>

theorem C4_encode_is_sorted_rank:
  assumes "v \<in> set categories"
  shows "\<exists>i. LabelEncoder_transform (LabelEncoder_fit categories) v = Inr i
            \<and> i < length (classes (LabelEncoder_fit categories))
            \<and> classes (LabelEncoder_fit categories) ! i = v
            \<and> i = card {c \<in> set categories. c < v}
            \<and> sorted (classes (LabelEncoder_fit categories))
            \<and> distinct (classes (LabelEncoder_fit categories))
            \<and> set (classes (LabelEncoder_fit categories)) = set categories
            \<and> (\<forall>reordered. set reordered = set categories \<longrightarrow>
                 LabelEncoder_transform (LabelEncoder_fit reordered) v = Inr i)"
proof -
  let ?cs = "classes (LabelEncoder_fit categories)"
  let ?i = "searchsorted ?cs v"
  have mem: "v \<in> set ?cs" using assms by (simp add: classes_fit)
  have t: "LabelEncoder_transform (LabelEncoder_fit categories) v = Inr ?i"
    using assms by (rule transform_fit_member)
  have n: "?i < length ?cs \<and> ?cs ! ?i = v"
    using classes_fit(1) mem by (rule searchsorted_nth)
  have c: "?i = card {c \<in> set categories. c < v}"
    using searchsorted_card [OF classes_fit(1) classes_fit(2), of categories v]
    by (simp add: classes_fit)
  have r: "\<forall>reordered. set reordered = set categories \<longrightarrow>
             LabelEncoder_transform (LabelEncoder_fit reordered) v = Inr ?i"
    using t fit_set_eq by metis
  show ?thesis using t n c r classes_fit by blast
qed

theorem C4_encode_is_sorted_rank_witness:
  "''India'' \<in> set (rev COUNTRIES)
   \<and> LabelEncoder_transform (LabelEncoder_fit (rev COUNTRIES)) ''India'' = Inr 6
   \<and> LabelEncoder_transform (LabelEncoder_fit COUNTRIES) ''India'' = Inr 6
   \<and> classes (LabelEncoder_fit (rev COUNTRIES)) ! 6 = ''India''"
proof -
  have m: "''India'' \<in> set (rev COUNTRIES)" by (simp add: COUNTRIES_def)
  have e: "LabelEncoder_transform (LabelEncoder_fit (rev COUNTRIES)) ''India'' = Inr 6"
    by (simp add: COUNTRIES_def LabelEncoder_transform_def LabelEncoder_fit_def searchsorted_def)
  from C4_encode_is_sorted_rank [OF m] obtain i where
    i: "LabelEncoder_transform (LabelEncoder_fit (rev COUNTRIES)) ''India'' = Inr i"
       "classes (LabelEncoder_fit (rev COUNTRIES)) ! i = ''India''"
       "\<forall>reordered. set reordered = set (rev COUNTRIES) \<longrightarrow>
          LabelEncoder_transform (LabelEncoder_fit reordered) ''India'' = Inr i"
    by blast
  from i(1) e have "i = 6" by simp
  with i m e show ?thesis by simp
qed

section \<open>Evaluating the start-up code\<close>

lemma fit_COUNTRIES: "LabelEncoder_fit COUNTRIES = LabelEncoder COUNTRIES"
  by (simp add: LabelEncoder_fit_def COUNTRIES_def)

lemma fit_STEM_FIELDS: "LabelEncoder_fit STEM_FIELDS = LabelEncoder STEM_FIELDS"
  by (simp add: LabelEncoder_fit_def STEM_FIELDS_def)

lemma load_model_and_encoders_Inr:
  assumes "load_model_and_encoders file fallback = Inr st"
  shows "country_encoder st = Some (LabelEncoder_fit COUNTRIES)"
    and "field_encoder st = Some (LabelEncoder_fit STEM_FIELDS)"
    and "scaler st \<noteq> None"
    and "model st \<noteq> None"
  using assms
  by (auto simp: load_model_and_encoders_def split: sum.splits model_file.splits)

lemma STEMPredictionService_init_Inr:
  assumes "STEMPredictionService_init file = Inr self"
  shows "self_country_encoder self = Some (LabelEncoder_fit (self_countries self))"
    and "self_field_encoder self = Some (LabelEncoder_fit (self_stem_fields self))"
    and "self_scaler self \<noteq> None"
    and "self_model self \<noteq> None"
    and "self_countries self = [''Australia'', ''Canada'', ''China'', ''Germany'', ''India'', ''USA'']"
    and "self_stem_fields self = STEM_FIELDS"
  using assms
  by (auto simp: STEMPredictionService_init_def load_model_def initialize_encoders_def
      STEM_FIELDS_def Let_def split: sum.splits model_file.splits)

lemma example_service_init:
  "STEMPredictionService_init (Present (Inr (constant_model (Fin 50)))) = Inr example_service"
  by (simp add: example_service_def STEMPredictionService_init_def load_model_def Let_def)

lemma example_service_fields:
  "self_countries example_service =
     [''Australia'', ''Canada'', ''China'', ''Germany'', ''India'', ''USA'']"
  "self_stem_fields example_service = STEM_FIELDS"
  "self_country_encoder example_service =
     Some (LabelEncoder [''Australia'', ''Canada'', ''China'', ''Germany'', ''India'', ''USA''])"
  "self_field_encoder example_service = Some (LabelEncoder STEM_FIELDS)"
  "self_model example_service = Some (constant_model (Fin 50))"
  "self_scaler example_service \<noteq> None"
  using STEMPredictionService_init_Inr [OF example_service_init] fit_STEM_FIELDS
  by (simp_all add: LabelEncoder_fit_def example_service_def STEMPredictionService_init_def
      load_model_def initialize_encoders_def Let_def)

section \<open>What a returned prediction looks like\<close>

lemma predict_graduation_rate_Inr:
  assumes "snd (predict_graduation_rate st input_data) = Inr out"
  shows "\<exists>m predict_method sc raw.
           model st = Some m \<and> predict_fn m = Some predict_method \<and> scaler st = Some sc
         \<and> predict_method (StandardScaler_transform sc (map float64
              [of_int (year input_data), female_enrollment_percent input_data,
               gender_gap_index input_data,
               of_nat (country_encoded out), of_nat (stem_field_encoded out)])) = Inr raw
         \<and> predicted_graduation_rate out = round2 (py_max (Fin 0) (py_min (Fin 100) raw))"
    and "model_confidence out =
           (if year input_data > 2025 \<or> gender_gap_index input_data < 0.5
            then ''medium'' else ''high'')"
  using assms
  by (auto simp: predict_graduation_rate_def Let_def split: if_splits option.splits sum.splits)

lemma post_predict_Inr:
  assumes "snd (post_predict st body) = Inr out"
  shows "PredictionInput_validate body = Inr body"
    and "snd (predict_graduation_rate st body) = Inr out"
  using assms
  by (auto simp: post_predict_def PredictionInput_validate_def Let_def split: sum.splits if_splits)

lemma predict_Inr:
  assumes "snd (predict self yr female_enrollment gap_index cntry field) = Inr res"
  shows "\<exists>m predict_method sc raw.
           self_model self = Some m \<and> predict_fn m = Some predict_method
         \<and> self_scaler self = Some sc
         \<and> predict_method (StandardScaler_transform sc (map float64
              [of_int yr, female_enrollment, gap_index,
               of_nat (result_country_encoded res),
               of_nat (result_stem_field_encoded res)])) = Inr raw
         \<and> result_predicted_graduation_rate res
             = round2 (py_max (Fin 0) (py_min (Fin 100) raw))"
    and "validate_input self yr female_enrollment gap_index cntry field = (True, NoMessage)"
  using assms
  by (auto simp: predict_def preprocess_input_def validate_input_def Let_def
      split: if_splits option.splits sum.splits prod.splits)

lemma validate_Inr_iff:
  "PredictionInput_validate body = Inr input_data \<longleftrightarrow>
     input_data = body \<and> 2000 \<le> year body \<and> year body \<le> 2030
     \<and> 0 \<le> female_enrollment_percent body \<and> female_enrollment_percent body \<le> 100
     \<and> 0 \<le> gender_gap_index body \<and> gender_gap_index body \<le> 1
     \<and> country body \<in> set COUNTRIES \<and> stem_field body \<in> set STEM_FIELDS"
  by (auto simp: PredictionInput_validate_def bounds_errors_def validator_errors_def
      validate_country_def validate_stem_field_def COUNTRIES_def STEM_FIELDS_def Let_def
      split: if_splits sum.splits)

lemma predict_graduation_rate_success:
  assumes "country_encoder st = Some (LabelEncoder_fit COUNTRIES)"
    and "field_encoder st = Some (LabelEncoder_fit STEM_FIELDS)"
    and "scaler st = Some sc" and "model st = Some m"
    and "country input_data \<in> set COUNTRIES" and "stem_field input_data \<in> set STEM_FIELDS"
    and "predict_fn m = Some predict_method"
    and "predict_method (StandardScaler_transform sc (map float64
           [of_int (year input_data), female_enrollment_percent input_data,
            gender_gap_index input_data,
            of_nat (searchsorted COUNTRIES (country input_data)),
            of_nat (searchsorted STEM_FIELDS (stem_field input_data))])) = Inr raw"
  shows "predict_graduation_rate st input_data =
     ([EncoderTransform (country input_data), EncoderTransform (stem_field input_data),
       ScalerTransform, ModelPredict],
      Inr \<lparr>predicted_graduation_rate = round2 (py_max (Fin 0) (py_min (Fin 100) raw)),
           model_used = ''SGD Regressor'',
           country_encoded = searchsorted COUNTRIES (country input_data),
           stem_field_encoded = searchsorted STEM_FIELDS (stem_field input_data),
           country_name = country input_data,
           stem_field_name = stem_field input_data,
           model_confidence =
             (if year input_data > 2025 \<or> gender_gap_index input_data < 0.5
              then ''medium'' else ''high''),
           country_rank = searchsorted COUNTRIES (country input_data) + 1,
           field_rank = searchsorted STEM_FIELDS (stem_field input_data) + 1\<rparr>)"
  using assms
  by (simp add: predict_graduation_rate_def Let_def fit_COUNTRIES fit_STEM_FIELDS
      LabelEncoder_transform_def)

lemma validate_input_True_iff:
  "fst (validate_input self yr female_enrollment gap_index cntry field) \<longleftrightarrow>
     2000 \<le> yr \<and> yr \<le> 2030 \<and> 0 \<le> female_enrollment \<and> female_enrollment \<le> 100
     \<and> 0 \<le> gap_index \<and> gap_index \<le> 1
     \<and> cntry \<in> set (self_countries self) \<and> field \<in> set (self_stem_fields self)"
  by (auto simp: validate_input_def)

lemma predict_success:
  assumes "self_country_encoder self = Some (LabelEncoder_fit (self_countries self))"
    and "self_field_encoder self = Some (LabelEncoder_fit (self_stem_fields self))"
    and "self_scaler self = Some sc" and "self_model self = Some m"
    and "fst (validate_input self yr female_enrollment gap_index cntry field)"
    and "predict_fn m = Some predict_method"
    and "predict_method (StandardScaler_transform sc (map float64
           [of_int yr, female_enrollment, gap_index,
            of_nat (searchsorted (classes (LabelEncoder_fit (self_countries self))) cntry),
            of_nat (searchsorted (classes (LabelEncoder_fit (self_stem_fields self))) field)]))
         = Inr raw"
  shows "predict self yr female_enrollment gap_index cntry field =
     ([EncoderTransform cntry, EncoderTransform field, ScalerTransform, ModelPredict],
      Inr \<lparr>result_predicted_graduation_rate = round2 (py_max (Fin 0) (py_min (Fin 100) raw)),
           result_model_used = ''SGD Regressor'',
           result_country = cntry,
           result_stem_field = field,
           result_country_encoded =
             searchsorted (classes (LabelEncoder_fit (self_countries self))) cntry,
           result_stem_field_encoded =
             searchsorted (classes (LabelEncoder_fit (self_stem_fields self))) field\<rparr>)"
proof -
  from assms(5) have v: "validate_input self yr female_enrollment gap_index cntry field
      = (True, NoMessage)"
    by (auto simp: validate_input_def split: if_splits)
  from assms(5) have mem: "cntry \<in> set (self_countries self)" "field \<in> set (self_stem_fields self)"
    by (simp_all add: validate_input_True_iff)
  have pre: "preprocess_input self yr female_enrollment gap_index cntry field =
     ([EncoderTransform cntry, EncoderTransform field, ScalerTransform],
      Inr (StandardScaler_transform sc (map float64
           [of_int yr, female_enrollment, gap_index,
            of_nat (searchsorted (classes (LabelEncoder_fit (self_countries self))) cntry),
            of_nat (searchsorted (classes (LabelEncoder_fit (self_stem_fields self))) field)]),
           searchsorted (classes (LabelEncoder_fit (self_countries self))) cntry,
           searchsorted (classes (LabelEncoder_fit (self_stem_fields self))) field))"
    using assms(1-3) mem
    by (simp add: preprocess_input_def Let_def transform_fit_member)
  show ?thesis
    using v pre assms(4,6,7) by (simp add: predict_def Let_def)
qed

lemma example_state:
  "globals_after_startup (Present (Inr m)) fallback =
     \<lparr>model = Some m,
      scaler = Some \<lparr>scaler_mean = map float64 [2018, 50, 0.7, 5, 1.5],
                     scaler_scale = map float64 [5, 15, 0.15, 3, 1.2]\<rparr>,
      country_encoder = Some (LabelEncoder_fit COUNTRIES),
      field_encoder = Some (LabelEncoder_fit STEM_FIELDS)\<rparr>"
  "globals_after_startup Absent fallback =
     \<lparr>model = Some fallback,
      scaler = Some \<lparr>scaler_mean = map float64 [2018, 50, 0.7, 5, 1.5],
                     scaler_scale = map float64 [5, 15, 0.15, 3, 1.2]\<rparr>,
      country_encoder = Some (LabelEncoder_fit COUNTRIES),
      field_encoder = Some (LabelEncoder_fit STEM_FIELDS)\<rparr>"
  by (simp_all add: globals_after_startup_def load_model_and_encoders_def)

lemma example_request_valid: "PredictionInput_validate example_request = Inr example_request"
  by (simp add: validate_Inr_iff) (simp add: example_request_def COUNTRIES_def STEM_FIELDS_def)

lemma post_predict_example:
  "post_predict (globals_after_startup (Present (Inr (constant_model raw))) fallback)
     example_request =
     ([EncoderTransform ''United States'', EncoderTransform ''Computer Science'',
       ScalerTransform, ModelPredict],
      Inr \<lparr>predicted_graduation_rate = round2 (py_max (Fin 0) (py_min (Fin 100) raw)),
           model_used = ''SGD Regressor'',
           country_encoded = 10,
           stem_field_encoded = 1,
           country_name = ''United States'',
           stem_field_name = ''Computer Science'',
           model_confidence = ''high'',
           country_rank = 11,
           field_rank = 2\<rparr>)"
proof -
  let ?st = "globals_after_startup (Present (Inr (constant_model raw))) fallback"
  have a: "country example_request \<in> set COUNTRIES" "stem_field example_request \<in> set STEM_FIELDS"
    by (simp_all add: example_request_def COUNTRIES_def STEM_FIELDS_def)
  have s: "searchsorted COUNTRIES (country example_request) = 10"
     "searchsorted STEM_FIELDS (stem_field example_request) = 1"
    by (simp_all add: example_request_def COUNTRIES_def STEM_FIELDS_def searchsorted_def)
  have "predict_graduation_rate ?st example_request = 
       ([EncoderTransform (country example_request), EncoderTransform (stem_field example_request),
       ScalerTransform, ModelPredict],
      Inr \<lparr>predicted_graduation_rate = round2 (py_max (Fin 0) (py_min (Fin 100) raw)),
           model_used = ''SGD Regressor'',
           country_encoded = searchsorted COUNTRIES (country example_request),
           stem_field_encoded = searchsorted STEM_FIELDS (stem_field example_request),
           country_name = country example_request,
           stem_field_name = stem_field example_request,
           model_confidence =
             (if year example_request > 2025 \<or> gender_gap_index example_request < 0.5
              then ''medium'' else ''high''),
           country_rank = searchsorted COUNTRIES (country example_request) + 1,
           field_rank = searchsorted STEM_FIELDS (stem_field example_request) + 1\<rparr>)"
    by (rule predict_graduation_rate_success [where m = "constant_model raw"
          and predict_method = "\<lambda>features. Inr raw"])
       (simp_all add: example_state a constant_model_def)
  then show ?thesis
    unfolding s by (simp add: post_predict_def example_request_valid) (simp add: example_request_def)
qed

section \<open>Requests that pass validation are answered\<close>

lemma post_predict_valid_returns:
  assumes "load_model_and_encoders artifact fallback = Inr st"
    and "PredictionInput_validate body = Inr input_data"
    and "model st = Some m" and "predict_fn m = Some predict_method"
    and "\<forall>features. \<exists>raw. predict_method features = Inr raw"
  shows "\<exists>out. post_predict st body =
           ([EncoderTransform (country body), EncoderTransform (stem_field body),
             ScalerTransform, ModelPredict], Inr out)"
proof -
  from assms(2) have v: "input_data = body" "country body \<in> set COUNTRIES"
      "stem_field body \<in> set STEM_FIELDS"
    by (simp_all add: validate_Inr_iff)
  from load_model_and_encoders_Inr(3) [OF assms(1)] obtain sc where sc: "scaler st = Some sc"
    by blast
  from assms(5) obtain raw where
    "predict_method (StandardScaler_transform sc (map float64
           [of_int (year body), female_enrollment_percent body, gender_gap_index body,
            of_nat (searchsorted COUNTRIES (country body)),
            of_nat (searchsorted STEM_FIELDS (stem_field body))])) = Inr raw"
    by blast
  from predict_graduation_rate_success [OF load_model_and_encoders_Inr(1,2) [OF assms(1)]
      sc assms(3) v(2,3) assms(4) this]
  show ?thesis using assms(2) v(1) by (simp add: post_predict_def)
qed

lemma predict_valid_returns:
  assumes "STEMPredictionService_init artifact = Inr self"
    and "fst (validate_input self yr female_enrollment gap_index cntry field)"
    and "self_model self = Some m" and "predict_fn m = Some predict_method"
    and "\<forall>features. \<exists>raw. predict_method features = Inr raw"
  shows "\<exists>res. predict self yr female_enrollment gap_index cntry field =
           ([EncoderTransform cntry, EncoderTransform field, ScalerTransform, ModelPredict],
            Inr res)"
proof -
  from STEMPredictionService_init_Inr(3) [OF assms(1)] obtain sc where
    sc: "self_scaler self = Some sc"
    by blast
  from assms(5) obtain raw where
    "predict_method (StandardScaler_transform sc (map float64
           [of_int yr, female_enrollment, gap_index,
            of_nat (searchsorted (classes (LabelEncoder_fit (self_countries self))) cntry),
            of_nat (searchsorted (classes (LabelEncoder_fit (self_stem_fields self))) field)]))
         = Inr raw"
    by blast
  from predict_success [OF STEMPredictionService_init_Inr(1,2) [OF assms(1)] sc assms(3,2,4) this]
  show ?thesis by simp
qed

lemma predict_example:
  "predict example_service 2024 45.5 0.75 ''India'' ''Computer Science'' =
     ([EncoderTransform ''India'', EncoderTransform ''Computer Science'',
       ScalerTransform, ModelPredict],
      Inr \<lparr>result_predicted_graduation_rate = Fin 50,
           result_model_used = ''SGD Regressor'',
           result_country = ''India'',
           result_stem_field = ''Computer Science'',
           result_country_encoded = 4,
           result_stem_field_encoded = 1\<rparr>)"
proof -
  obtain sc where sc: "self_scaler example_service = Some sc"
    using example_service_fields(6) by blast
  have v: "fst (validate_input example_service 2024 45.5 0.75 ''India'' ''Computer Science'')"
    by (simp add: validate_input_True_iff example_service_fields STEM_FIELDS_def)
  have s: "searchsorted (classes (LabelEncoder_fit (self_countries example_service))) ''India'' = 4"
    "searchsorted (classes (LabelEncoder_fit (self_stem_fields example_service)))
       ''Computer Science'' = 1"
    by (simp_all add: example_service_fields STEM_FIELDS_def LabelEncoder_fit_def searchsorted_def)
  have r: "round2 (py_max (Fin 0) (py_min (Fin 100) (Fin 50))) = Fin 50"
    using round2_of_int [of 50] by (simp add: py_max_def py_min_def)
  have "predict example_service 2024 45.5 0.75 ''India'' ''Computer Science'' =
     ([EncoderTransform ''India'', EncoderTransform ''Computer Science'',
       ScalerTransform, ModelPredict],
      Inr \<lparr>result_predicted_graduation_rate = round2 (py_max (Fin 0) (py_min (Fin 100) (Fin 50))),
           result_model_used = ''SGD Regressor'',
           result_country = ''India'',
           result_stem_field = ''Computer Science'',
           result_country_encoded =
             searchsorted (classes (LabelEncoder_fit (self_countries example_service))) ''India'',
           result_stem_field_encoded =
             searchsorted (classes (LabelEncoder_fit (self_stem_fields example_service)))
               ''Computer Science''\<rparr>)"
    using sc v
    by (intro predict_success [where m = "constant_model (Fin 50)" and sc = sc
          and predict_method = "\<lambda>features. Inr (Fin 50)"])
       (simp_all add: constant_model_def LabelEncoder_fit_def example_service_fields STEM_FIELDS_def)
  then show ?thesis unfolding s r .
qed

section \<open>Claims about the returned prediction\<close>

text \<open>
  C1. Every result that either pipeline returns carries the regressor's answer for the
  scaled features of the request, clamped and then rounded: whatever that answer is (a
  finite number, an infinity or NaN), it is first forced into the range from 0 to 100 and
  then rounded to a whole number of hundredths, so the \<^verbatim>\<open>predicted_graduation_rate\<close> is a
  finite number between 0 and 100. On globals set by \<^verbatim>\<open>load_model_and_encoders\<close> with a
  regressor that does not raise, every request that passes validation gets such a result.
\<close>

theorem C1_rate_within_0_100:
  "(snd (post_predict st body) = Inr out \<longrightarrow>
      (\<exists>m predict_method sc raw n.
          model st = Some m \<and> predict_fn m = Some predict_method \<and> scaler st = Some sc
        \<and> predict_method (StandardScaler_transform sc (map float64
             [of_int (year body), female_enrollment_percent body, gender_gap_index body,
              of_nat (country_encoded out), of_nat (stem_field_encoded out)])) = Inr raw
        \<and> predicted_graduation_rate out = round2 (Fin (clamp_0_100 raw))
        \<and> n = rint (float64 (clamp_0_100 raw * 100)) \<and> 0 \<le> n \<and> n \<le> 10000
        \<and> predicted_graduation_rate out = Fin (float64 (of_int n / 100))
        \<and> 0 \<le> float64 (of_int n / 100) \<and> float64 (of_int n / 100) \<le> 100))
   \<and> (snd (predict self yr female_enrollment gap_index cntry field) = Inr res \<longrightarrow>
      (\<exists>m predict_method sc raw n.
          self_model self = Some m \<and> predict_fn m = Some predict_method
        \<and> self_scaler self = Some sc
        \<and> predict_method (StandardScaler_transform sc (map float64
             [of_int yr, female_enrollment, gap_index,
              of_nat (result_country_encoded res),
              of_nat (result_stem_field_encoded res)])) = Inr raw
        \<and> result_predicted_graduation_rate res = round2 (Fin (clamp_0_100 raw))
        \<and> n = rint (float64 (clamp_0_100 raw * 100)) \<and> 0 \<le> n \<and> n \<le> 10000
        \<and> result_predicted_graduation_rate res = Fin (float64 (of_int n / 100))
        \<and> 0 \<le> float64 (of_int n / 100) \<and> float64 (of_int n / 100) \<le> 100))
   \<and> (load_model_and_encoders artifact fallback = Inr st' \<and> model st' = Some m
        \<and> predict_fn m = Some predict_method
        \<and> (\<forall>features. \<exists>raw. predict_method features = Inr raw)
        \<and> PredictionInput_validate body' = Inr body' \<longrightarrow>
      (\<exists>out' q. snd (post_predict st' body') = Inr out'
         \<and> predicted_graduation_rate out' = Fin q \<and> 0 \<le> q \<and> q \<le> 100))"
proof (intro conjI impI)
  assume "snd (post_predict st body) = Inr out"
  then have "snd (predict_graduation_rate st body) = Inr out" by (rule post_predict_Inr(2))
  from predict_graduation_rate_Inr(1) [OF this] obtain m predict_method sc raw where
    r: "model st = Some m" "predict_fn m = Some predict_method" "scaler st = Some sc"
       "predict_method (StandardScaler_transform sc (map float64
             [of_int (year body), female_enrollment_percent body, gender_gap_index body,
              of_nat (country_encoded out), of_nat (stem_field_encoded out)])) = Inr raw"
       "predicted_graduation_rate out = round2 (py_max (Fin 0) (py_min (Fin 100) raw))"
    by blast
  from r(5) have c: "predicted_graduation_rate out = round2 (Fin (clamp_0_100 raw))"
    by (simp only: clamp_eq)
  from round2_hundredths [OF clamp_0_100_range, of raw] c r(1-4)
  show "\<exists>m predict_method sc raw n.
          model st = Some m \<and> predict_fn m = Some predict_method \<and> scaler st = Some sc
        \<and> predict_method (StandardScaler_transform sc (map float64
             [of_int (year body), female_enrollment_percent body, gender_gap_index body,
              of_nat (country_encoded out), of_nat (stem_field_encoded out)])) = Inr raw
        \<and> predicted_graduation_rate out = round2 (Fin (clamp_0_100 raw))
        \<and> n = rint (float64 (clamp_0_100 raw * 100)) \<and> 0 \<le> n \<and> n \<le> 10000
        \<and> predicted_graduation_rate out = Fin (float64 (of_int n / 100))
        \<and> 0 \<le> float64 (of_int n / 100) \<and> float64 (of_int n / 100) \<le> 100"
    by (intro exI [of _ m] exI [of _ predict_method] exI [of _ sc] exI [of _ raw]) auto
next
  assume "snd (predict self yr female_enrollment gap_index cntry field) = Inr res"
  from predict_Inr(1) [OF this] obtain m predict_method sc raw where
    r: "self_model self = Some m" "predict_fn m = Some predict_method"
       "self_scaler self = Some sc"
       "predict_method (StandardScaler_transform sc (map float64
             [of_int yr, female_enrollment, gap_index,
              of_nat (result_country_encoded res),
              of_nat (result_stem_field_encoded res)])) = Inr raw"
       "result_predicted_graduation_rate res = round2 (py_max (Fin 0) (py_min (Fin 100) raw))"
    by blast
  from r(5) have c: "result_predicted_graduation_rate res = round2 (Fin (clamp_0_100 raw))"
    by (simp only: clamp_eq)
  from round2_hundredths [OF clamp_0_100_range, of raw] c r(1-4)
  show "\<exists>m predict_method sc raw n.
          self_model self = Some m \<and> predict_fn m = Some predict_method
        \<and> self_scaler self = Some sc
        \<and> predict_method (StandardScaler_transform sc (map float64
             [of_int yr, female_enrollment, gap_index,
              of_nat (result_country_encoded res),
              of_nat (result_stem_field_encoded res)])) = Inr raw
        \<and> result_predicted_graduation_rate res = round2 (Fin (clamp_0_100 raw))
        \<and> n = rint (float64 (clamp_0_100 raw * 100)) \<and> 0 \<le> n \<and> n \<le> 10000
        \<and> result_predicted_graduation_rate res = Fin (float64 (of_int n / 100))
        \<and> 0 \<le> float64 (of_int n / 100) \<and> float64 (of_int n / 100) \<le> 100"
    by (intro exI [of _ m] exI [of _ predict_method] exI [of _ sc] exI [of _ raw]) auto
next
  assume a: "load_model_and_encoders artifact fallback = Inr st' \<and> model st' = Some m
        \<and> predict_fn m = Some predict_method
        \<and> (\<forall>features. \<exists>raw. predict_method features = Inr raw)
        \<and> PredictionInput_validate body' = Inr body'"
  then have "\<exists>out. post_predict st' body' =
           ([EncoderTransform (country body'), EncoderTransform (stem_field body'),
             ScalerTransform, ModelPredict], Inr out)"
    by (intro post_predict_valid_returns [where artifact = artifact and fallback = fallback
          and input_data = body' and m = m and predict_method = predict_method]) simp_all
  then obtain out' where o: "snd (post_predict st' body') = Inr out'" by auto
  then have "snd (predict_graduation_rate st' body') = Inr out'" by (rule post_predict_Inr(2))
  from predict_graduation_rate_Inr(1) [OF this] obtain raw where
    "predicted_graduation_rate out' = round2 (py_max (Fin 0) (py_min (Fin 100) raw))"
    by blast
  with rate_range [of raw] o
  show "\<exists>out' q. snd (post_predict st' body') = Inr out'
         \<and> predicted_graduation_rate out' = Fin q \<and> 0 \<le> q \<and> q \<le> 100"
    by auto
qed

theorem C1_rate_within_0_100_witness:
  "(\<exists>out. snd (post_predict
       (globals_after_startup (Present (Inr (constant_model NaN))) (constant_model (Fin 0)))
       example_request) = Inr out
     \<and> predicted_graduation_rate out = Fin 100)
   \<and> (\<exists>out. snd (post_predict
       (globals_after_startup (Present (Inr (constant_model (Fin (float64 2.675)))))
          (constant_model (Fin 0)))
       example_request) = Inr out
     \<and> predicted_graduation_rate out = Fin (float64 2.68))
   \<and> (\<exists>res. snd (predict example_service 2024 45.5 0.75 ''India'' ''Computer Science'') = Inr res
     \<and> result_predicted_graduation_rate res = Fin 50)
   \<and> load_model_and_encoders (Present (Inr (constant_model PInf))) (constant_model (Fin 0))
       = Inr (globals_after_startup (Present (Inr (constant_model PInf))) (constant_model (Fin 0)))
   \<and> PredictionInput_validate example_request = Inr example_request
   \<and> (\<exists>out q. snd (post_predict
       (globals_after_startup (Present (Inr (constant_model PInf))) (constant_model (Fin 0)))
       example_request) = Inr out
     \<and> predicted_graduation_rate out = Fin q \<and> 0 \<le> q \<and> q \<le> 100)"
proof -
  let ?nan = "globals_after_startup (Present (Inr (constant_model NaN))) (constant_model (Fin 0))"
  let ?tie = "globals_after_startup (Present (Inr (constant_model (Fin (float64 2.675)))))
                (constant_model (Fin 0))"
  let ?inf = "globals_after_startup (Present (Inr (constant_model PInf))) (constant_model (Fin 0))"
  have first: "\<exists>out. snd (post_predict ?nan example_request) = Inr out
      \<and> predicted_graduation_rate out = Fin 100"
  proof -
    obtain out where out: "snd (post_predict ?nan example_request) = Inr out"
      by (simp add: post_predict_example)
    from C1_rate_within_0_100 [where st = ?nan and body = example_request and out = out,
        THEN conjunct1, THEN mp, OF out]
    obtain m predict_method sc raw where
      r: "model ?nan = Some m" "predict_fn m = Some predict_method"
         "predict_method (StandardScaler_transform sc (map float64
             [of_int (year example_request), female_enrollment_percent example_request,
              gender_gap_index example_request,
              of_nat (country_encoded out), of_nat (stem_field_encoded out)])) = Inr raw"
         "predicted_graduation_rate out = round2 (Fin (clamp_0_100 raw))"
      by blast
    from r(1) have "m = constant_model NaN" by (simp add: example_state)
    with r(2) have "predict_method = (\<lambda>features. Inr NaN)" by (simp add: constant_model_def)
    with r(3) have "raw = NaN" by simp
    with r(4) have "predicted_graduation_rate out = Fin 100"
      using round2_of_int [of 100] by (simp add: clamp_0_100_def)
    with out show ?thesis by blast
  qed
  have second: "\<exists>out. snd (post_predict ?tie example_request) = Inr out
      \<and> predicted_graduation_rate out = Fin (float64 2.68)"
  proof -
    obtain out where out: "snd (post_predict ?tie example_request) = Inr out"
      by (simp add: post_predict_example)
    from C1_rate_within_0_100 [where st = ?tie and body = example_request and out = out,
        THEN conjunct1, THEN mp, OF out]
    obtain m predict_method sc raw where
      r: "model ?tie = Some m" "predict_fn m = Some predict_method"
         "predict_method (StandardScaler_transform sc (map float64
             [of_int (year example_request), female_enrollment_percent example_request,
              gender_gap_index example_request,
              of_nat (country_encoded out), of_nat (stem_field_encoded out)])) = Inr raw"
         "predicted_graduation_rate out = round2 (Fin (clamp_0_100 raw))"
      by blast
    from r(1) have "m = constant_model (Fin (float64 2.675))" by (simp add: example_state)
    with r(2) have "predict_method = (\<lambda>features. Inr (Fin (float64 2.675)))"
      by (simp add: constant_model_def)
    with r(3) have raw: "raw = Fin (float64 2.675)" by simp
    have "0 \<le> float64 2.675" "float64 2.675 \<le> 100"
      by (simp_all add: float64_def exponent_def rint_def compute_bitlen Let_def)
    then have "clamp_0_100 (Fin (float64 2.675)) = float64 2.675"
      by (simp add: clamp_0_100_def)
    with r(4) raw have "predicted_graduation_rate out = Fin (float64 2.68)"
      by (simp only: round2_in_doubles(2))
    with out show ?thesis by blast
  qed
  have third: "\<exists>res. snd (predict example_service 2024 45.5 0.75 ''India''
      ''Computer Science'') = Inr res \<and> result_predicted_graduation_rate res = Fin 50"
    unfolding predict_example by simp
  have l: "load_model_and_encoders (Present (Inr (constant_model PInf))) (constant_model (Fin 0))
      = Inr ?inf"
    by (simp add: globals_after_startup_def load_model_and_encoders_def)
  have m: "model ?inf = Some (constant_model PInf)" by (simp add: example_state)
  have f: "predict_fn (constant_model PInf) = Some (\<lambda>features. Inr PInf)"
    by (simp add: constant_model_def)
  have p: "\<forall>features. \<exists>raw. (\<lambda>features. Inr PInf :: py_error + pyfloat) features = Inr raw"
    by simp
  from C1_rate_within_0_100 [where artifact = "Present (Inr (constant_model PInf))"
      and fallback = "constant_model (Fin 0)" and st' = ?inf and m = "constant_model PInf"
      and predict_method = "\<lambda>features. Inr PInf" and body' = example_request,
      THEN conjunct2, THEN conjunct2, THEN mp,
      OF conjI [OF l conjI [OF m conjI [OF f conjI [OF p example_request_valid]]]]]
  have last: "\<exists>out q. snd (post_predict ?inf example_request) = Inr out
      \<and> predicted_graduation_rate out = Fin q \<and> 0 \<le> q \<and> q \<le> 100" .
  from first second third l example_request_valid last show ?thesis by blast
qed

text \<open>
  C3. In every response of \<^verbatim>\<open>POST /predict\<close> that carries a prediction, the confidence label
  is \<^verbatim>\<open>medium\<close> exactly when the year is above 2025 or the gender gap index is below 0.5,
  and \<^verbatim>\<open>high\<close> exactly when neither holds; it is one of these two strings, also when both
  conditions hold.
\<close>

theorem C3_confidence_label:
  assumes "snd (post_predict st body) = Inr out"
  shows "(model_confidence out = ''medium'' \<longleftrightarrow>
            year body > 2025 \<or> gender_gap_index body < 0.5)
       \<and> (model_confidence out = ''high'' \<longleftrightarrow>
            \<not> (year body > 2025 \<or> gender_gap_index body < 0.5))"
proof -
  from assms have "snd (predict_graduation_rate st body) = Inr out" by (rule post_predict_Inr(2))
  from predict_graduation_rate_Inr(2) [OF this] show ?thesis by (simp split: if_splits)
qed

theorem C3_confidence_label_witness:
  "(\<exists>out. snd (post_predict
              (globals_after_startup (Present (Inr (constant_model (Fin 50)))) (constant_model (Fin 0)))
              (example_request\<lparr>year := 2028, gender_gap_index := 0.3\<rparr>)) = Inr out
          \<and> model_confidence out = ''medium'')
   \<and> (\<exists>out. snd (post_predict
              (globals_after_startup (Present (Inr (constant_model (Fin 50)))) (constant_model (Fin 0)))
              example_request) = Inr out
          \<and> model_confidence out = ''high'')"
proof -
  let ?st = "globals_after_startup (Present (Inr (constant_model (Fin 50)))) (constant_model (Fin 0))"
  let ?late = "example_request\<lparr>year := 2028, gender_gap_index := 0.3\<rparr>"
  have l: "load_model_and_encoders (Present (Inr (constant_model (Fin 50)))) (constant_model (Fin 0))
             = Inr ?st"
    by (simp add: globals_after_startup_def load_model_and_encoders_def)
  have v: "PredictionInput_validate ?late = Inr ?late"
    by (simp add: validate_Inr_iff) (simp add: example_request_def COUNTRIES_def STEM_FIELDS_def)
  have "\<exists>out. post_predict ?st ?late =
           ([EncoderTransform (country ?late), EncoderTransform (stem_field ?late),
             ScalerTransform, ModelPredict], Inr out)"
    using l v
    by (rule post_predict_valid_returns [where m = "constant_model (Fin 50)"
          and predict_method = "\<lambda>features. Inr (Fin 50)"])
       (simp_all add: example_state constant_model_def)
  then obtain late where late: "snd (post_predict ?st ?late) = Inr late" by auto
  obtain out where out: "snd (post_predict ?st example_request) = Inr out"
    by (simp add: post_predict_example)
  from C3_confidence_label [OF late] have "model_confidence late = ''medium''"
    by (simp add: example_request_def)
  moreover from C3_confidence_label [OF out] have "model_confidence out = ''high''"
    by (simp add: example_request_def)
  ultimately show ?thesis using late out by blast
qed

section \<open>Claims about rejected requests\<close>

lemma bounds_errors_set:
  "set (bounds_errors name lo hi v) =
     (if v < lo then {NotGe name} else if hi < v then {NotLe name} else {})"
  by (simp add: bounds_errors_def)

lemma PredictionInput_validate_Inl:
  "PredictionInput_validate body = Inl errors \<longleftrightarrow>
     errors \<noteq> [] \<and>
     errors = bounds_errors ''year'' 2000 2030 (year body)
          @ bounds_errors ''female_enrollment_percent'' 0 100 (female_enrollment_percent body)
          @ bounds_errors ''gender_gap_index'' 0 1 (gender_gap_index body)
          @ validator_errors (validate_country (country body))
          @ validator_errors (validate_stem_field (stem_field body))"
  by (auto simp: PredictionInput_validate_def Let_def)

text \<open>
  C5. A request whose year is outside 2000..2030, whose enrolment percentage is outside
  0..100 or whose gender gap index is outside 0..1 is rejected by both pipelines before
  any call to an encoder, the scaler or the model: \<^verbatim>\<open>POST /predict\<close> answers 422 with
  an error for each such field, and \<^verbatim>\<open>STEMPredictionService.predict\<close> raises a
  \<^verbatim>\<open>ValueError\<close> with one of the three range messages.
\<close>

theorem C5_out_of_range_rejected:
  assumes "year body < 2000 \<or> 2030 < year body
         \<or> female_enrollment_percent body < 0 \<or> 100 < female_enrollment_percent body
         \<or> gender_gap_index body < 0 \<or> 1 < gender_gap_index body"
  shows "(\<exists>errors. post_predict st body = ([], Inl (Http422 errors))
           \<and> (year body < 2000 \<longleftrightarrow> NotGe ''year'' \<in> set errors)
           \<and> (2030 < year body \<longleftrightarrow> NotLe ''year'' \<in> set errors)
           \<and> (female_enrollment_percent body < 0 \<longleftrightarrow>
                 NotGe ''female_enrollment_percent'' \<in> set errors)
           \<and> (100 < female_enrollment_percent body \<longleftrightarrow>
                 NotLe ''female_enrollment_percent'' \<in> set errors)
           \<and> (gender_gap_index body < 0 \<longleftrightarrow> NotGe ''gender_gap_index'' \<in> set errors)
           \<and> (1 < gender_gap_index body \<longleftrightarrow> NotLe ''gender_gap_index'' \<in> set errors))
       \<and> (\<exists>msg. predict self (year body) (female_enrollment_percent body)
                  (gender_gap_index body) (country body) (stem_field body)
                = ([], Inl (ValueError msg))
           \<and> msg \<in> {YearMessage, EnrollmentMessage, GenderGapMessage})"
proof -
  let ?errors = "bounds_errors ''year'' 2000 2030 (year body)
          @ bounds_errors ''female_enrollment_percent'' 0 100 (female_enrollment_percent body)
          @ bounds_errors ''gender_gap_index'' 0 1 (gender_gap_index body)
          @ validator_errors (validate_country (country body))
          @ validator_errors (validate_stem_field (stem_field body))"
  have ne: "?errors \<noteq> []" using assms by (auto simp: bounds_errors_def)
  then have "PredictionInput_validate body = Inl ?errors"
    by (simp add: PredictionInput_validate_Inl)
  then have p: "post_predict st body = ([], Inl (Http422 ?errors))"
    by (simp add: post_predict_def)
  have s: "set ?errors = set (bounds_errors ''year'' 2000 2030 (year body))
      \<union> set (bounds_errors ''female_enrollment_percent'' 0 100 (female_enrollment_percent body))
      \<union> set (bounds_errors ''gender_gap_index'' 0 1 (gender_gap_index body))
      \<union> set (validator_errors (validate_country (country body)))
      \<union> set (validator_errors (validate_stem_field (stem_field body)))"
    by auto
  have c: "NotGe n \<notin> set (validator_errors (validate_country (country body)))"
      "NotLe n \<notin> set (validator_errors (validate_country (country body)))"
      "NotGe n \<notin> set (validator_errors (validate_stem_field (stem_field body)))"
      "NotLe n \<notin> set (validator_errors (validate_stem_field (stem_field body)))" for n
    by (auto simp: validator_errors_def validate_country_def validate_stem_field_def Let_def)
  have main: "\<exists>errors. post_predict st body = ([], Inl (Http422 errors))
           \<and> (year body < 2000 \<longleftrightarrow> NotGe ''year'' \<in> set errors)
           \<and> (2030 < year body \<longleftrightarrow> NotLe ''year'' \<in> set errors)
           \<and> (female_enrollment_percent body < 0 \<longleftrightarrow>
                 NotGe ''female_enrollment_percent'' \<in> set errors)
           \<and> (100 < female_enrollment_percent body \<longleftrightarrow>
                 NotLe ''female_enrollment_percent'' \<in> set errors)
           \<and> (gender_gap_index body < 0 \<longleftrightarrow> NotGe ''gender_gap_index'' \<in> set errors)
           \<and> (1 < gender_gap_index body \<longleftrightarrow> NotLe ''gender_gap_index'' \<in> set errors)"
    apply (rule exI [of _ ?errors])
    unfolding s bounds_errors_set using p c
    by simp
  have service: "\<exists>msg. predict self (year body) (female_enrollment_percent body)
                  (gender_gap_index body) (country body) (stem_field body)
                = ([], Inl (ValueError msg))
           \<and> msg \<in> {YearMessage, EnrollmentMessage, GenderGapMessage}"
    using assms by (auto simp: predict_def validate_input_def)
  from main service show ?thesis by blast
qed

theorem C5_out_of_range_rejected_witness:
  "year (example_request\<lparr>year := 1999\<rparr>) < 2000
   \<and> post_predict (globals_after_startup Absent (constant_model (Fin 0)))
         (example_request\<lparr>year := 1999\<rparr>) = ([], Inl (Http422 [NotGe ''year'']))
   \<and> predict example_service 1999 45.5 0.75 ''United States'' ''Computer Science''
       = ([], Inl (ValueError YearMessage))"
proof -
  let ?body = "example_request\<lparr>year := 1999\<rparr>"
  have h: "year ?body < 2000 \<or> 2030 < year ?body
         \<or> female_enrollment_percent ?body < 0 \<or> 100 < female_enrollment_percent ?body
         \<or> gender_gap_index ?body < 0 \<or> 1 < gender_gap_index ?body"
    by (simp add: example_request_def)
  have e: "bounds_errors ''year'' 2000 2030 (year ?body)
          @ bounds_errors ''female_enrollment_percent'' 0 100 (female_enrollment_percent ?body)
          @ bounds_errors ''gender_gap_index'' 0 1 (gender_gap_index ?body)
          @ validator_errors (validate_country (country ?body))
          @ validator_errors (validate_stem_field (stem_field ?body)) = [NotGe ''year'']"
    by (simp add: example_request_def bounds_errors_def validator_errors_def
        validate_country_def validate_stem_field_def)
  from C5_out_of_range_rejected [OF h, of "globals_after_startup Absent (constant_model (Fin 0))"
      example_service]
  obtain errors msg where
    r: "post_predict (globals_after_startup Absent (constant_model (Fin 0))) ?body
          = ([], Inl (Http422 errors))"
       "predict example_service (year ?body) (female_enrollment_percent ?body)
          (gender_gap_index ?body) (country ?body) (stem_field ?body)
          = ([], Inl (ValueError msg))"
    by blast
  from r(1) have "PredictionInput_validate ?body = Inl errors"
    by (auto simp: post_predict_def predict_graduation_rate_def Let_def
        split: sum.splits if_splits option.splits)
  then have "errors = [NotGe ''year'']" unfolding PredictionInput_validate_Inl e by simp
  moreover have "validate_input example_service 1999 45.5 0.75 ''United States''
      ''Computer Science'' = (False, YearMessage)"
    by (simp add: validate_input_def)
  then have "predict example_service 1999 45.5 0.75 ''United States'' ''Computer Science''
       = ([], Inl (ValueError YearMessage))"
    by (simp add: predict_def)
  ultimately show ?thesis using r(1) by (simp add: example_request_def)
qed


text \<open>
  C6 as stated (every request with an unsupported label gets an error naming that label
  and the valid set) fails on \<^verbatim>\<open>STEMPredictionService\<close>: with the year out of range too,
  the error is the year message, which carries neither; with both labels unsupported, only the country
  is named.
\<close>

theorem C6_counterexample:
  "''Mars'' \<notin> set (self_countries example_service)
   \<and> ''Alchemy'' \<notin> set (self_stem_fields example_service)
   \<and> predict example_service 1999 45.5 0.75 ''Mars'' ''Biology''
       = ([], Inl (ValueError YearMessage))
   \<and> predict example_service 1999 45.5 0.75 ''Mars'' ''Biology''
       \<noteq> ([], Inl (ValueError (CountryMessage ''Mars'' (self_countries example_service))))
   \<and> predict example_service 2024 45.5 0.75 ''Mars'' ''Alchemy''
       = ([], Inl (ValueError (CountryMessage ''Mars'' (self_countries example_service))))
   \<and> predict example_service 2024 45.5 0.75 ''Mars'' ''Alchemy''
       \<noteq> ([], Inl (ValueError (StemFieldMessage ''Alchemy'' (self_stem_fields example_service))))"
  by (simp add: predict_def validate_input_def example_service_fields STEM_FIELDS_def)

text \<open>
  C6, amended. Every request whose country or field label is not in the pinned set is
  rejected before any encoding. \<^verbatim>\<open>POST /predict\<close> answers 422 with an error for each
  unsupported label, carrying the label and the full valid list; the handler's own checks
  answer 400 with the country and the country list, or, the country being supported, the
  field and the field list. \<^verbatim>\<open>STEMPredictionService.predict\<close> raises a \<^verbatim>\<open>ValueError\<close>; its
  message carries the rejected label and the full valid list when no earlier check in the
  order year, enrolment, gender gap index, country, field fails; otherwise it is the
  message of the first range check that fails.
\<close>

theorem C6_unsupported_category_rejected:
  "(country body \<notin> set COUNTRIES \<or> stem_field body \<notin> set STEM_FIELDS \<longrightarrow>
      (\<exists>errors. post_predict st body = ([], Inl (Http422 errors))
         \<and> (country body \<notin> set COUNTRIES \<longleftrightarrow>
              CountryNotSupported (country body) COUNTRIES \<in> set errors)
         \<and> (stem_field body \<notin> set STEM_FIELDS \<longleftrightarrow>
              StemFieldNotSupported (stem_field body) STEM_FIELDS \<in> set errors))
      \<and> predict_graduation_rate st body =
          ([], Inl (if country body \<notin> set COUNTRIES
                    then Http400_InvalidCountry (country body) COUNTRIES
                    else Http400_InvalidField (stem_field body) STEM_FIELDS)))
   \<and> (cntry \<notin> set (self_countries self) \<or> field \<notin> set (self_stem_fields self) \<longrightarrow>
      (\<exists>msg. predict self yr female_enrollment gap_index cntry field
                = ([], Inl (ValueError msg))
         \<and> (2000 \<le> yr \<and> yr \<le> 2030 \<and> 0 \<le> female_enrollment \<and> female_enrollment \<le> 100
              \<and> 0 \<le> gap_index \<and> gap_index \<le> 1 \<longrightarrow>
            msg = (if cntry \<notin> set (self_countries self)
                   then CountryMessage cntry (self_countries self)
                   else StemFieldMessage field (self_stem_fields self)))
         \<and> (\<not> (2000 \<le> yr \<and> yr \<le> 2030 \<and> 0 \<le> female_enrollment \<and> female_enrollment \<le> 100
                 \<and> 0 \<le> gap_index \<and> gap_index \<le> 1) \<longrightarrow>
            msg = (if \<not> (2000 \<le> yr \<and> yr \<le> 2030) then YearMessage
                   else if \<not> (0 \<le> female_enrollment \<and> female_enrollment \<le> 100)
                   then EnrollmentMessage else GenderGapMessage))))"
proof (intro conjI impI)
  assume a: "country body \<notin> set COUNTRIES \<or> stem_field body \<notin> set STEM_FIELDS"
  let ?errors = "bounds_errors ''year'' 2000 2030 (year body)
          @ bounds_errors ''female_enrollment_percent'' 0 100 (female_enrollment_percent body)
          @ bounds_errors ''gender_gap_index'' 0 1 (gender_gap_index body)
          @ validator_errors (validate_country (country body))
          @ validator_errors (validate_stem_field (stem_field body))"
  have vc: "validator_errors (validate_country (country body)) =
      (if country body \<notin> set COUNTRIES then [CountryNotSupported (country body) COUNTRIES] else [])"
    by (simp add: validator_errors_def validate_country_def COUNTRIES_def)
  have vf: "validator_errors (validate_stem_field (stem_field body)) =
      (if stem_field body \<notin> set STEM_FIELDS
       then [StemFieldNotSupported (stem_field body) STEM_FIELDS] else [])"
    by (simp add: validator_errors_def validate_stem_field_def STEM_FIELDS_def)
  have ne: "?errors \<noteq> []" using a by (auto simp: vc vf)
  then have "PredictionInput_validate body = Inl ?errors"
    by (simp add: PredictionInput_validate_Inl)
  then have p: "post_predict st body = ([], Inl (Http422 ?errors))"
    by (simp add: post_predict_def)
  have "(country body \<notin> set COUNTRIES \<longleftrightarrow>
              CountryNotSupported (country body) COUNTRIES \<in> set ?errors)
         \<and> (stem_field body \<notin> set STEM_FIELDS \<longleftrightarrow>
              StemFieldNotSupported (stem_field body) STEM_FIELDS \<in> set ?errors)"
    unfolding vc vf by (simp add: bounds_errors_def)
  with p show "\<exists>errors. post_predict st body = ([], Inl (Http422 errors))
         \<and> (country body \<notin> set COUNTRIES \<longleftrightarrow>
              CountryNotSupported (country body) COUNTRIES \<in> set errors)
         \<and> (stem_field body \<notin> set STEM_FIELDS \<longleftrightarrow>
              StemFieldNotSupported (stem_field body) STEM_FIELDS \<in> set errors)"
    by blast
  from a show "predict_graduation_rate st body =
          ([], Inl (if country body \<notin> set COUNTRIES
                    then Http400_InvalidCountry (country body) COUNTRIES
                    else Http400_InvalidField (stem_field body) STEM_FIELDS))"
    by (auto simp: predict_graduation_rate_def)
next
  assume "cntry \<notin> set (self_countries self) \<or> field \<notin> set (self_stem_fields self)"
  then show "\<exists>msg. predict self yr female_enrollment gap_index cntry field
                = ([], Inl (ValueError msg))
         \<and> (2000 \<le> yr \<and> yr \<le> 2030 \<and> 0 \<le> female_enrollment \<and> female_enrollment \<le> 100
              \<and> 0 \<le> gap_index \<and> gap_index \<le> 1 \<longrightarrow>
            msg = (if cntry \<notin> set (self_countries self)
                   then CountryMessage cntry (self_countries self)
                   else StemFieldMessage field (self_stem_fields self)))
         \<and> (\<not> (2000 \<le> yr \<and> yr \<le> 2030 \<and> 0 \<le> female_enrollment \<and> female_enrollment \<le> 100
                 \<and> 0 \<le> gap_index \<and> gap_index \<le> 1) \<longrightarrow>
            msg = (if \<not> (2000 \<le> yr \<and> yr \<le> 2030) then YearMessage
                   else if \<not> (0 \<le> female_enrollment \<and> female_enrollment \<le> 100)
                   then EnrollmentMessage else GenderGapMessage))"
    by (auto simp: predict_def validate_input_def)
qed

theorem C6_unsupported_category_rejected_witness:
  "country (example_request\<lparr>country := ''Mars''\<rparr>) \<notin> set COUNTRIES
   \<and> (\<exists>errors. post_predict initial_state (example_request\<lparr>country := ''Mars''\<rparr>)
                  = ([], Inl (Http422 errors))
          \<and> CountryNotSupported ''Mars'' COUNTRIES \<in> set errors
          \<and> StemFieldNotSupported ''Computer Science'' STEM_FIELDS \<notin> set errors)
   \<and> predict_graduation_rate initial_state (example_request\<lparr>country := ''Mars''\<rparr>)
       = ([], Inl (Http400_InvalidCountry ''Mars'' COUNTRIES))
   \<and> ''Alchemy'' \<notin> set (self_stem_fields example_service)
   \<and> predict example_service 2024 45.5 0.75 ''India'' ''Alchemy''
       = ([], Inl (ValueError (StemFieldMessage ''Alchemy'' (self_stem_fields example_service))))"
proof -
  let ?body = "example_request\<lparr>country := ''Mars''\<rparr>"
  have a: "country ?body \<notin> set COUNTRIES \<or> stem_field ?body \<notin> set STEM_FIELDS"
    "country ?body \<notin> set COUNTRIES" "\<not> stem_field ?body \<notin> set STEM_FIELDS"
    "country ?body = ''Mars''" "stem_field ?body = ''Computer Science''"
    by (simp_all add: example_request_def COUNTRIES_def STEM_FIELDS_def)
  have b: "''India'' \<in> set (self_countries example_service)"
    "''Alchemy'' \<notin> set (self_stem_fields example_service)"
    by (simp_all add: example_service_fields STEM_FIELDS_def)
  have n: "2000 \<le> (2024::int) \<and> (2024::int) \<le> 2030 \<and> 0 \<le> (45.5::real) \<and> (45.5::real) \<le> 100
              \<and> 0 \<le> (0.75::real) \<and> (0.75::real) \<le> 1"
    by simp
  note c = C6_unsupported_category_rejected [where body = ?body and st = initial_state
      and self = example_service and cntry = "''India''" and field = "''Alchemy''"
      and yr = 2024 and female_enrollment = "45.5" and gap_index = "0.75"]
  from c [THEN conjunct1, THEN mp, OF a(1)] obtain errors where
    e: "post_predict initial_state ?body = ([], Inl (Http422 errors))"
       "country ?body \<notin> set COUNTRIES \<longleftrightarrow>
          CountryNotSupported (country ?body) COUNTRIES \<in> set errors"
       "stem_field ?body \<notin> set STEM_FIELDS \<longleftrightarrow>
          StemFieldNotSupported (stem_field ?body) STEM_FIELDS \<in> set errors"
    and h: "predict_graduation_rate initial_state ?body =
          ([], Inl (if country ?body \<notin> set COUNTRIES
                    then Http400_InvalidCountry (country ?body) COUNTRIES
                    else Http400_InvalidField (stem_field ?body) STEM_FIELDS))"
    by blast
  from e(2) a(2,4) have e2: "CountryNotSupported ''Mars'' COUNTRIES \<in> set errors" by simp
  from e(3) a(3,5) have e3: "StemFieldNotSupported ''Computer Science'' STEM_FIELDS \<notin> set errors"
    by simp
  from h a(2,4) have h': "predict_graduation_rate initial_state ?body
       = ([], Inl (Http400_InvalidCountry ''Mars'' COUNTRIES))"
    by simp
  from c [THEN conjunct2, THEN mp, OF disjI2 [OF b(2)]] obtain msg where
    m: "predict example_service 2024 45.5 0.75 ''India'' ''Alchemy'' = ([], Inl (ValueError msg))"
       "2000 \<le> (2024::int) \<and> (2024::int) \<le> 2030 \<and> 0 \<le> (45.5::real) \<and> (45.5::real) \<le> 100
              \<and> 0 \<le> (0.75::real) \<and> (0.75::real) \<le> 1 \<longrightarrow>
            msg = (if ''India'' \<notin> set (self_countries example_service)
                   then CountryMessage ''India'' (self_countries example_service)
                   else StemFieldMessage ''Alchemy'' (self_stem_fields example_service))"
    by blast
  from m(2) [THEN mp, OF n] b(1) have
    "msg = StemFieldMessage ''Alchemy'' (self_stem_fields example_service)"
    by simp
  with m(1) have m': "predict example_service 2024 45.5 0.75 ''India'' ''Alchemy''
       = ([], Inl (ValueError (StemFieldMessage ''Alchemy'' (self_stem_fields example_service))))"
    by simp
  show ?thesis
    using a(2) e(1) e2 e3 h' b(2) m' by blast
qed

section \<open>Claims about validation and encoding together\<close>

lemma preprocess_input_success:
  assumes "self_country_encoder self = Some (LabelEncoder_fit (self_countries self))"
    and "self_field_encoder self = Some (LabelEncoder_fit (self_stem_fields self))"
    and "self_scaler self = Some sc"
    and "cntry \<in> set (self_countries self)" and "field \<in> set (self_stem_fields self)"
  shows "preprocess_input self yr female_enrollment gap_index cntry field =
     ([EncoderTransform cntry, EncoderTransform field, ScalerTransform],
      Inr (StandardScaler_transform sc (map float64
           [of_int yr, female_enrollment, gap_index,
            of_nat (searchsorted (classes (LabelEncoder_fit (self_countries self))) cntry),
            of_nat (searchsorted (classes (LabelEncoder_fit (self_stem_fields self))) field)]),
           searchsorted (classes (LabelEncoder_fit (self_countries self))) cntry,
           searchsorted (classes (LabelEncoder_fit (self_stem_fields self))) field))"
  using assms by (simp add: preprocess_input_def Let_def transform_fit_member)

text \<open>
  C7. On globals set by \<^verbatim>\<open>load_model_and_encoders\<close>, a request whose country and field
  pass the membership checks (as every request accepted by the \<^verbatim>\<open>PredictionInput\<close>
  validators does) is encoded without error: both \<^verbatim>\<open>transform\<close> calls return a code and the
  pipeline goes on to the scaler. The same holds for a \<^verbatim>\<open>STEMPredictionService\<close> built by
  its constructor and arguments accepted by \<^verbatim>\<open>validate_input\<close>. In both, the encoders are
  fitted on the very lists validation checks against.
\<close>

theorem C7_encoding_cannot_fail_after_validation:
  "(load_model_and_encoders artifact fallback = Inr st
      \<and> (PredictionInput_validate input_data = Inr input_data
          \<or> country input_data \<in> set COUNTRIES \<and> stem_field input_data \<in> set STEM_FIELDS) \<longrightarrow>
      (\<exists>ce fe country_enc field_enc.
          country_encoder st = Some ce \<and> field_encoder st = Some fe
        \<and> ce = LabelEncoder_fit COUNTRIES \<and> fe = LabelEncoder_fit STEM_FIELDS
        \<and> LabelEncoder_transform ce (country input_data) = Inr country_enc
        \<and> LabelEncoder_transform fe (stem_field input_data) = Inr field_enc
        \<and> take 3 (fst (predict_graduation_rate st input_data))
            = [EncoderTransform (country input_data), EncoderTransform (stem_field input_data),
               ScalerTransform]))
   \<and> (STEMPredictionService_init artifact' = Inr self
      \<and> fst (validate_input self yr female_enrollment gap_index cntry field) \<longrightarrow>
      (\<exists>ce fe country_enc field_enc.
          self_country_encoder self = Some ce \<and> self_field_encoder self = Some fe
        \<and> ce = LabelEncoder_fit (self_countries self)
        \<and> fe = LabelEncoder_fit (self_stem_fields self)
        \<and> LabelEncoder_transform ce cntry = Inr country_enc
        \<and> LabelEncoder_transform fe field = Inr field_enc
        \<and> take 3 (fst (predict self yr female_enrollment gap_index cntry field))
            = [EncoderTransform cntry, EncoderTransform field, ScalerTransform]))"
proof (intro conjI impI)
  assume a: "load_model_and_encoders artifact fallback = Inr st
      \<and> (PredictionInput_validate input_data = Inr input_data
          \<or> country input_data \<in> set COUNTRIES \<and> stem_field input_data \<in> set STEM_FIELDS)"
  then have mem: "country input_data \<in> set COUNTRIES" "stem_field input_data \<in> set STEM_FIELDS"
    by (auto simp: validate_Inr_iff)
  from a have l: "load_model_and_encoders artifact fallback = Inr st" by simp
  note enc = load_model_and_encoders_Inr(1,2) [OF l]
  from load_model_and_encoders_Inr(3,4) [OF l] obtain sc m where
    sm: "scaler st = Some sc" "model st = Some m"
    by blast
  have t: "LabelEncoder_transform (LabelEncoder_fit COUNTRIES) (country input_data)
             = Inr (searchsorted (classes (LabelEncoder_fit COUNTRIES)) (country input_data))"
     "LabelEncoder_transform (LabelEncoder_fit STEM_FIELDS) (stem_field input_data)
             = Inr (searchsorted (classes (LabelEncoder_fit STEM_FIELDS)) (stem_field input_data))"
    using mem by (simp_all add: transform_fit_member)
  have "take 3 (fst (predict_graduation_rate st input_data))
            = [EncoderTransform (country input_data), EncoderTransform (stem_field input_data),
               ScalerTransform]"
    using mem enc sm t
    by (simp add: predict_graduation_rate_def Let_def split: sum.splits option.splits)
  with enc t show "\<exists>ce fe country_enc field_enc.
          country_encoder st = Some ce \<and> field_encoder st = Some fe
        \<and> ce = LabelEncoder_fit COUNTRIES \<and> fe = LabelEncoder_fit STEM_FIELDS
        \<and> LabelEncoder_transform ce (country input_data) = Inr country_enc
        \<and> LabelEncoder_transform fe (stem_field input_data) = Inr field_enc
        \<and> take 3 (fst (predict_graduation_rate st input_data))
            = [EncoderTransform (country input_data), EncoderTransform (stem_field input_data),
               ScalerTransform]"
    by blast
next
  assume a: "STEMPredictionService_init artifact' = Inr self
      \<and> fst (validate_input self yr female_enrollment gap_index cntry field)"
  then have i: "STEMPredictionService_init artifact' = Inr self" by simp
  from a have v: "validate_input self yr female_enrollment gap_index cntry field
      = (True, NoMessage)"
    by (auto simp: validate_input_def split: if_splits)
  from a have mem: "cntry \<in> set (self_countries self)" "field \<in> set (self_stem_fields self)"
    by (simp_all add: validate_input_True_iff)
  note enc = STEMPredictionService_init_Inr(1,2) [OF i]
  from STEMPredictionService_init_Inr(3,4) [OF i] obtain sc m where
    sm: "self_scaler self = Some sc" "self_model self = Some m"
    by blast
  note pre = preprocess_input_success [OF enc sm(1) mem, of yr female_enrollment gap_index]
  have "take 3 (fst (predict self yr female_enrollment gap_index cntry field))
            = [EncoderTransform cntry, EncoderTransform field, ScalerTransform]"
    using v sm(2) by (simp add: predict_def pre Let_def split: sum.splits option.splits)
  with enc mem show "\<exists>ce fe country_enc field_enc.
          self_country_encoder self = Some ce \<and> self_field_encoder self = Some fe
        \<and> ce = LabelEncoder_fit (self_countries self)
        \<and> fe = LabelEncoder_fit (self_stem_fields self)
        \<and> LabelEncoder_transform ce cntry = Inr country_enc
        \<and> LabelEncoder_transform fe field = Inr field_enc
        \<and> take 3 (fst (predict self yr female_enrollment gap_index cntry field))
            = [EncoderTransform cntry, EncoderTransform field, ScalerTransform]"
    by (simp add: transform_fit_member)
qed

theorem C7_encoding_cannot_fail_after_validation_witness:
  "load_model_and_encoders Absent (constant_model (Fin 0))
     = Inr (globals_after_startup Absent (constant_model (Fin 0)))
   \<and> PredictionInput_validate example_request = Inr example_request
   \<and> LabelEncoder_transform (LabelEncoder_fit COUNTRIES) (country example_request) = Inr 10
   \<and> LabelEncoder_transform (LabelEncoder_fit STEM_FIELDS) (stem_field example_request) = Inr 1
   \<and> take 3 (fst (predict_graduation_rate (globals_after_startup Absent (constant_model (Fin 0)))
                example_request))
       = [EncoderTransform ''United States'', EncoderTransform ''Computer Science'',
          ScalerTransform]
   \<and> STEMPredictionService_init (Present (Inr (constant_model (Fin 50)))) = Inr example_service
   \<and> fst (validate_input example_service 2024 45.5 0.75 ''India'' ''Computer Science'')
   \<and> LabelEncoder_transform (LabelEncoder_fit (self_countries example_service)) ''India'' = Inr 4
   \<and> take 3 (fst (predict example_service 2024 45.5 0.75 ''India'' ''Computer Science''))
       = [EncoderTransform ''India'', EncoderTransform ''Computer Science'', ScalerTransform]"
proof -
  let ?st = "globals_after_startup Absent (constant_model (Fin 0))"
  have l: "load_model_and_encoders Absent (constant_model (Fin 0)) = Inr ?st"
    by (simp add: globals_after_startup_def load_model_and_encoders_def)
  have v: "fst (validate_input example_service 2024 45.5 0.75 ''India'' ''Computer Science'')"
    by (simp add: validate_input_True_iff example_service_fields STEM_FIELDS_def)
  have t: "LabelEncoder_transform (LabelEncoder_fit COUNTRIES) (country example_request) = Inr 10"
    "LabelEncoder_transform (LabelEncoder_fit STEM_FIELDS) (stem_field example_request) = Inr 1"
    "LabelEncoder_transform (LabelEncoder_fit (self_countries example_service)) ''India'' = Inr 4"
    by (simp_all add: LabelEncoder_transform_def LabelEncoder_fit_def searchsorted_def
        example_request_def COUNTRIES_def STEM_FIELDS_def example_service_fields)
  note c = C7_encoding_cannot_fail_after_validation [where artifact = Absent
      and fallback = "constant_model (Fin 0)" and st = ?st and input_data = example_request
      and artifact' = "Present (Inr (constant_model (Fin 50)))" and self = example_service
      and yr = 2024 and female_enrollment = "45.5" and gap_index = "0.75"
      and cntry = "''India''" and field = "''Computer Science''"]
  from c [THEN conjunct1, THEN mp, OF conjI [OF l disjI1 [OF example_request_valid]]]
  have m: "take 3 (fst (predict_graduation_rate ?st example_request))
            = [EncoderTransform (country example_request),
               EncoderTransform (stem_field example_request), ScalerTransform]"
    by blast
  from c [THEN conjunct2, THEN mp, OF conjI [OF example_service_init v]]
  have s: "take 3 (fst (predict example_service 2024 45.5 0.75 ''India'' ''Computer Science''))
            = [EncoderTransform ''India'', EncoderTransform ''Computer Science'', ScalerTransform]"
    by blast
  from m have m': "take 3 (fst (predict_graduation_rate ?st example_request))
       = [EncoderTransform ''United States'', EncoderTransform ''Computer Science'',
          ScalerTransform]"
    by (simp add: example_request_def)
  show ?thesis
    using l example_request_valid t m' example_service_init v s by blast
qed

section \<open>Claims about the order of validation\<close>

text \<open>
  C10. \<^verbatim>\<open>validate_input\<close> reports the first violated constraint in the order year,
  enrolment percentage, gender gap index, country, STEM field, and nothing about later
  ones: its result is \<^verbatim>\<open>(False, message)\<close> with the message of the head of the list of
  violated constraints, and \<^verbatim>\<open>(True, "")\<close> exactly when that list is empty, that is, when
  all five constraints hold.
\<close>

theorem C10_first_failure_order:
  "validate_input self yr female_enrollment gap_index cntry field =
     (case violated_constraints self yr female_enrollment gap_index cntry field of
        [] \<Rightarrow> (True, NoMessage)
      | first_message # later \<Rightarrow> (False, first_message))
   \<and> (validate_input self yr female_enrollment gap_index cntry field = (True, NoMessage) \<longleftrightarrow>
        2000 \<le> yr \<and> yr \<le> 2030 \<and> 0 \<le> female_enrollment \<and> female_enrollment \<le> 100
        \<and> 0 \<le> gap_index \<and> gap_index \<le> 1
        \<and> cntry \<in> set (self_countries self) \<and> field \<in> set (self_stem_fields self))
   \<and> (fst (validate_input self yr female_enrollment gap_index cntry field) \<longleftrightarrow>
        violated_constraints self yr female_enrollment gap_index cntry field = [])
   \<and> (snd (validate_input self yr female_enrollment gap_index cntry field) = NoMessage \<longleftrightarrow>
        fst (validate_input self yr female_enrollment gap_index cntry field))"
proof -
  have a: "validate_input self yr female_enrollment gap_index cntry field =
     (case violated_constraints self yr female_enrollment gap_index cntry field of
        [] \<Rightarrow> (True, NoMessage)
      | first_message # later \<Rightarrow> (False, first_message))"
    by (auto simp: validate_input_def violated_constraints_def)
  have b: "validate_input self yr female_enrollment gap_index cntry field = (True, NoMessage) \<longleftrightarrow>
        2000 \<le> yr \<and> yr \<le> 2030 \<and> 0 \<le> female_enrollment \<and> female_enrollment \<le> 100
        \<and> 0 \<le> gap_index \<and> gap_index \<le> 1
        \<and> cntry \<in> set (self_countries self) \<and> field \<in> set (self_stem_fields self)"
    by (auto simp: validate_input_def)
  have c: "fst (validate_input self yr female_enrollment gap_index cntry field) \<longleftrightarrow>
        violated_constraints self yr female_enrollment gap_index cntry field = []"
    unfolding a by (simp split: list.splits)
  have d: "snd (validate_input self yr female_enrollment gap_index cntry field) = NoMessage \<longleftrightarrow>
        fst (validate_input self yr female_enrollment gap_index cntry field)"
    by (auto simp: validate_input_def)
  from a b c d show ?thesis by blast
qed

theorem C10_first_failure_order_witness:
  "violated_constraints example_service 1999 145.5 0.75 ''Mars'' ''Biology''
     = [YearMessage, EnrollmentMessage, CountryMessage ''Mars'' (self_countries example_service)]
   \<and> validate_input example_service 1999 145.5 0.75 ''Mars'' ''Biology'' = (False, YearMessage)
   \<and> validate_input example_service 2024 145.5 0.75 ''Mars'' ''Biology''
       = (False, EnrollmentMessage)
   \<and> validate_input example_service 2024 45.5 0.75 ''India'' ''Biology'' = (True, NoMessage)"
proof -
  have v: "violated_constraints example_service 1999 145.5 0.75 ''Mars'' ''Biology''
     = [YearMessage, EnrollmentMessage, CountryMessage ''Mars'' (self_countries example_service)]"
    "violated_constraints example_service 2024 145.5 0.75 ''Mars'' ''Biology''
     = [EnrollmentMessage, CountryMessage ''Mars'' (self_countries example_service)]"
    "violated_constraints example_service 2024 45.5 0.75 ''India'' ''Biology'' = []"
    by (simp_all add: violated_constraints_def example_service_fields STEM_FIELDS_def)
  have "validate_input example_service 1999 145.5 0.75 ''Mars'' ''Biology'' = (False, YearMessage)"
    using C10_first_failure_order [where self = example_service and yr = 1999
        and female_enrollment = "145.5" and gap_index = "0.75" and cntry = "''Mars''"
        and field = "''Biology''", THEN conjunct1]
    unfolding v by simp
  moreover have "validate_input example_service 2024 145.5 0.75 ''Mars'' ''Biology''
       = (False, EnrollmentMessage)"
    using C10_first_failure_order [where self = example_service and yr = 2024
        and female_enrollment = "145.5" and gap_index = "0.75" and cntry = "''Mars''"
        and field = "''Biology''", THEN conjunct1]
    unfolding v by simp
  moreover have "validate_input example_service 2024 45.5 0.75 ''India'' ''Biology''
       = (True, NoMessage)"
    using C10_first_failure_order [where self = example_service and yr = 2024
        and female_enrollment = "45.5" and gap_index = "0.75" and cntry = "''India''"
        and field = "''Biology''", THEN conjunct1]
    unfolding v by simp
  ultimately show ?thesis using v(1) by blast
qed

section \<open>Claims about the two category lists\<close>

text \<open>
  C9. The two pipelines accept different inputs and assign different codes.
  \<^verbatim>\<open>main.py\<close> pins 11 countries, among them United States and United Kingdom;
  \<^verbatim>\<open>STEMPredictionService\<close> pins 6, with USA and without United States. The example
  request for United States passes the validation of \<^verbatim>\<open>main.py\<close> and gets code 10 there,
  and is rejected by \<^verbatim>\<open>validate_input\<close>; India is accepted by both and is encoded as 6
  by \<^verbatim>\<open>main.py\<close> and as 4 by the service.
\<close>

theorem C9_pipelines_disagree:
  "length COUNTRIES = 11 \<and> length (self_countries example_service) = 6
   \<and> ''United States'' \<in> set COUNTRIES \<and> ''United Kingdom'' \<in> set COUNTRIES
   \<and> ''USA'' \<in> set (self_countries example_service) \<and> ''USA'' \<notin> set COUNTRIES
   \<and> ''United States'' \<notin> set (self_countries example_service)
   \<and> STEMPredictionService_init (Present (Inr (constant_model (Fin 50)))) = Inr example_service
   \<and> PredictionInput_validate example_request = Inr example_request
   \<and> (\<exists>out. snd (post_predict
        (globals_after_startup (Present (Inr (constant_model (Fin 50)))) (constant_model (Fin 0)))
        example_request) = Inr out \<and> country_encoded out = 10)
   \<and> validate_input example_service 2024 45.5 0.75 ''United States'' ''Computer Science''
       = (False, CountryMessage ''United States'' (self_countries example_service))
   \<and> predict example_service 2024 45.5 0.75 ''United States'' ''Computer Science''
       = ([], Inl (ValueError (CountryMessage ''United States'' (self_countries example_service))))
   \<and> ''India'' \<in> set COUNTRIES \<and> ''India'' \<in> set (self_countries example_service)
   \<and> LabelEncoder_transform (LabelEncoder_fit COUNTRIES) ''India'' = Inr 6
   \<and> LabelEncoder_transform (LabelEncoder_fit (self_countries example_service)) ''India'' = Inr 4
   \<and> country_encoder
        (globals_after_startup (Present (Inr (constant_model (Fin 50)))) (constant_model (Fin 0)))
       = Some (LabelEncoder_fit COUNTRIES)
   \<and> self_country_encoder example_service
       = Some (LabelEncoder_fit (self_countries example_service))
   \<and> (\<exists>res. snd (predict example_service 2024 45.5 0.75 ''India'' ''Computer Science'')
          = Inr res \<and> result_country_encoded res = 4)"
proof -
  have a: "length COUNTRIES = 11" "''United States'' \<in> set COUNTRIES"
    "''United Kingdom'' \<in> set COUNTRIES" "''USA'' \<notin> set COUNTRIES" "''India'' \<in> set COUNTRIES"
    by (simp_all add: COUNTRIES_def)
  have b: "length (self_countries example_service) = 6"
    "''USA'' \<in> set (self_countries example_service)"
    "''United States'' \<notin> set (self_countries example_service)"
    "''India'' \<in> set (self_countries example_service)"
    by (simp_all add: example_service_fields)
  have c: "\<exists>out. snd (post_predict
        (globals_after_startup (Present (Inr (constant_model (Fin 50)))) (constant_model (Fin 0)))
        example_request) = Inr out \<and> country_encoded out = 10"
    by (simp add: post_predict_example)
  have d: "validate_input example_service 2024 45.5 0.75 ''United States'' ''Computer Science''
       = (False, CountryMessage ''United States'' (self_countries example_service))"
    by (simp add: validate_input_def example_service_fields)
  then have e: "predict example_service 2024 45.5 0.75 ''United States'' ''Computer Science''
       = ([], Inl (ValueError (CountryMessage ''United States'' (self_countries example_service))))"
    by (simp add: predict_def)
  have f: "LabelEncoder_transform (LabelEncoder_fit COUNTRIES) ''India'' = Inr 6"
    "LabelEncoder_transform (LabelEncoder_fit (self_countries example_service)) ''India'' = Inr 4"
    by (simp_all add: LabelEncoder_transform_def LabelEncoder_fit_def searchsorted_def
        COUNTRIES_def example_service_fields)
  have g: "country_encoder
        (globals_after_startup (Present (Inr (constant_model (Fin 50)))) (constant_model (Fin 0)))
       = Some (LabelEncoder_fit COUNTRIES)"
    by (simp add: example_state)
  have h: "self_country_encoder example_service
       = Some (LabelEncoder_fit (self_countries example_service))"
    using example_service_init by (rule STEMPredictionService_init_Inr(1))
  have i: "\<exists>res. snd (predict example_service 2024 45.5 0.75 ''India'' ''Computer Science'')
          = Inr res \<and> result_country_encoded res = 4"
    unfolding predict_example by simp
  show ?thesis
    using a b c d e f g h i example_service_init example_request_valid by blast
qed

section \<open>Claims about start-up and health\<close>

text \<open>
  C8 as stated (only \<^verbatim>\<open>healthy\<close> and \<^verbatim>\<open>degraded\<close> are ever returned) fails: when the truth
  test of the loaded model object raises, the \<^verbatim>\<open>except\<close> branch of \<^verbatim>\<open>health_check\<close> returns
  the third status of its docstring, \<^verbatim>\<open>unhealthy\<close>, although all four globals are set.
\<close>

theorem C8_counterexample:
  "load_model_and_encoders (Present (Inr array_model)) (constant_model (Fin 0))
     = Inr (globals_after_startup (Present (Inr array_model)) (constant_model (Fin 0)))
   \<and> health_check (globals_after_startup (Present (Inr array_model)) (constant_model (Fin 0)))
       = HealthFailure ''unhealthy'' ObjectError
   \<and> status (health_check
        (globals_after_startup (Present (Inr array_model)) (constant_model (Fin 0))))
       \<noteq> ''healthy''
   \<and> status (health_check
        (globals_after_startup (Present (Inr array_model)) (constant_model (Fin 0))))
       \<noteq> ''degraded''"
  by (simp add: globals_after_startup_def load_model_and_encoders_def health_check_def
      array_model_def)

text \<open>
  C8, amended. \<^verbatim>\<open>health_check\<close> returns one of three statuses. When the check itself
  raises (the truth test of the loaded model object is the only expression that can),
  the status is \<^verbatim>\<open>unhealthy\<close>. Otherwise the status is \<^verbatim>\<open>degraded\<close> when any of the model,
  the two encoders and the scaler is unset, and \<^verbatim>\<open>healthy\<close> when all are set.
\<close>

theorem C8_health_status:
  "status (health_check st) \<in> {''healthy'', ''degraded'', ''unhealthy''}
   \<and> (status (health_check st) = ''unhealthy'' \<longleftrightarrow>
        (\<exists>m e. model st = Some m \<and> truth_test m = Inl e))
   \<and> (status (health_check st) = ''degraded'' \<longleftrightarrow>
        (model st = None \<or> country_encoder st = None \<or> field_encoder st = None
           \<or> scaler st = None)
        \<and> \<not> (\<exists>m e. model st = Some m \<and> truth_test m = Inl e))
   \<and> (status (health_check st) = ''healthy'' \<longleftrightarrow>
        model st \<noteq> None \<and> country_encoder st \<noteq> None \<and> field_encoder st \<noteq> None
        \<and> scaler st \<noteq> None
        \<and> \<not> (\<exists>m e. model st = Some m \<and> truth_test m = Inl e))"
  by (auto simp: health_check_def Let_def split: option.splits sum.splits)

theorem C8_health_status_witness:
  "status (health_check initial_state) = ''degraded''
   \<and> status (health_check (globals_after_startup Absent (constant_model (Fin 0)))) = ''healthy''"
proof -
  have "status (health_check initial_state) = ''degraded''"
    using C8_health_status [of initial_state] by (simp add: initial_state_def)
  moreover have "status (health_check (globals_after_startup Absent (constant_model (Fin 0))))
      = ''healthy''"
    using C8_health_status [of "globals_after_startup Absent (constant_model (Fin 0))"]
    by (simp add: example_state constant_model_def)
  ultimately show ?thesis by blast
qed

text \<open>
  C2 does not hold for \<^verbatim>\<open>main.py\<close>. With no file at \<^verbatim>\<open>model/best_model.pkl\<close>,
  \<^verbatim>\<open>load_model_and_encoders\<close> succeeds with the regressor fitted on random data as the
  model, \<^verbatim>\<open>health_check\<close> reports \<^verbatim>\<open>healthy\<close> and ready for predictions, and
  \<^verbatim>\<open>POST /predict\<close> answers with the output of that regressor. The constructor of
  \<^verbatim>\<open>STEMPredictionService\<close> raises \<^verbatim>\<open>FileNotFoundError\<close> in the same situation, and both
  re-raise a failure of \<^verbatim>\<open>joblib.load\<close>.
\<close>

theorem C2_missing_artifact_serves_fallback:
  "load_model_and_encoders Absent fallback = Inr (globals_after_startup Absent fallback)
   \<and> model (globals_after_startup Absent fallback) = Some fallback
   \<and> health_check (globals_after_startup Absent (constant_model (Fin 42)))
       = HealthReport ''healthy'' True True True True True None
   \<and> post_predict (globals_after_startup Absent (constant_model (Fin 42))) example_request
       = ([EncoderTransform ''United States'', EncoderTransform ''Computer Science'',
           ScalerTransform, ModelPredict],
          Inr \<lparr>predicted_graduation_rate = Fin 42, model_used = ''SGD Regressor'',
               country_encoded = 10, stem_field_encoded = 1,
               country_name = ''United States'', stem_field_name = ''Computer Science'',
               model_confidence = ''high'', country_rank = 11, field_rank = 2\<rparr>)
   \<and> STEMPredictionService_init Absent = Inl FileNotFoundError
   \<and> load_model_and_encoders (Present (Inl e)) fallback = Inl e
   \<and> STEMPredictionService_init (Present (Inl e)) = Inl e"
proof -
  have g: "globals_after_startup Absent (constant_model (Fin 42))
      = globals_after_startup (Present (Inr (constant_model (Fin 42)))) (constant_model (Fin 0))"
    by (simp add: example_state)
  have r: "round2 (py_max (Fin 0) (py_min (Fin 100) (Fin 42))) = Fin 42"
    using round2_of_int [of 42] by (simp add: py_max_def py_min_def)
  have p: "post_predict (globals_after_startup Absent (constant_model (Fin 42))) example_request
       = ([EncoderTransform ''United States'', EncoderTransform ''Computer Science'',
           ScalerTransform, ModelPredict],
          Inr \<lparr>predicted_graduation_rate = Fin 42, model_used = ''SGD Regressor'',
               country_encoded = 10, stem_field_encoded = 1,
               country_name = ''United States'', stem_field_name = ''Computer Science'',
               model_confidence = ''high'', country_rank = 11, field_rank = 2\<rparr>)"
    unfolding g post_predict_example r ..
  have h: "health_check (globals_after_startup Absent (constant_model (Fin 42)))
       = HealthReport ''healthy'' True True True True True None"
    by (simp add: example_state health_check_def constant_model_def)
  have l: "load_model_and_encoders Absent fallback = Inr (globals_after_startup Absent fallback)"
    "model (globals_after_startup Absent fallback) = Some fallback"
    "load_model_and_encoders (Present (Inl e)) fallback = Inl e"
    by (simp_all add: globals_after_startup_def load_model_and_encoders_def)
  have s: "STEMPredictionService_init Absent = Inl FileNotFoundError"
    "STEMPredictionService_init (Present (Inl e)) = Inl e"
    by (simp_all add: STEMPredictionService_init_def load_model_def)
  from l h p s show ?thesis by blast
qed

end
